theory Spec2Isabelle
  imports Complex_Main "HOL-Library.Log_Nat"
begin

text \<open>
  The turn engine of the AI-narrated role-playing game: the reconciler and the turn
  lifecycle of \<^verbatim>\<open>App\<close>, the recomputation of the maximal HP, and the normalizer of
  delimited text \<^verbatim>\<open>parseTextResponse\<close>. State is passed explicitly: every state update
  of the source is a function from the old state to the new one. Random draws, ids
  and the clock are parameters. Numbers of the game are integers, strings are lists of
  chars (exact on ASCII), and the one place that rounds, the rescaling of the HP, is
  modelled with the rounding of double arithmetic.
\<close>

section \<open>Data model (types.ts)\<close>

text \<open>
  The seven stat axes. They carry the prefix \<open>S_\<close>, because \<^verbatim>\<open>STR\<close> and \<^verbatim>\<open>INT\<close>
  are reserved input syntax of HOL.
\<close>

datatype StatType = S_STR | S_DEX | S_CON | S_INT | S_CHA | S_PER | S_LUK

datatype ItemType = Weapon | Armor | Accessory | Misc

datatype GameStatus = Ongoing | Won | Lost

datatype GamePhase = Menu | Setup_genre | Setup_stats | Creating_world | Playing | Game_over

text \<open>
  \<^verbatim>\<open>CharacterStats\<close> is an object with one number per axis;
  \<^verbatim>\<open>Partial<CharacterStats>\<close> has a number for some of the axes. Numbers of the game state
  are integers (the source only ever adds, subtracts and compares them, apart from the
  max-HP rescaling, which is modelled with its double arithmetic below).
\<close>

type_synonym CharacterStats = "StatType \<Rightarrow> int"
type_synonym PartialStats = "StatType \<Rightarrow> int option"

text \<open>
  A number that comes out of \<^verbatim>\<open>parseInt\<close> or out of arithmetic on a missing field
  can be \<^verbatim>\<open>NaN\<close>; a field that can be missing altogether is an \<open>option\<close>.
\<close>

datatype number = NaN | Num int

text \<open>
  \<^verbatim>\<open>StatExperience\<close> is declared as one number per axis, but \<^verbatim>\<open>handleRestart\<close>
  writes an object that holds five of the seven counters, so a counter can be missing
  (\<open>None\<close>), and arithmetic on a missing counter stores \<^verbatim>\<open>NaN\<close>.
\<close>

type_synonym StatExperience = "StatType \<Rightarrow> number option"

record InventoryItem =
  item_id :: string
  item_name :: string
  item_type :: ItemType
  item_description :: "string option"
  item_bonuses :: "PartialStats option"

record EquippedGear =
  weapon :: "InventoryItem option"
  armor :: "InventoryItem option"
  accessory :: "InventoryItem option"

text \<open>
  The type of an effect is \<^verbatim>\<open>'buff' | 'debuff'\<close> in types.ts, but the text parser
  stores whatever string the response holds, so it is a string here. The same holds
  for the type and condition of an NPC and for the stat of a choice or of an action
  result.
\<close>

record StatusEffect =
  eff_id :: string
  eff_name :: string
  eff_description :: string
  eff_type :: string
  eff_duration :: int
  eff_statModifiers :: "PartialStats option"
  eff_blocksHeroicActions :: "bool option"

record NPC =
  npc_id :: string
  npc_name :: string
  npc_description :: string
  npc_type :: string
  npc_condition :: string

record ChoiceData =
  ch_text :: string
  ch_type :: "string option"
  ch_difficulty :: "number option"

record RollResult =
  rr_total :: "number option"
  rr_base :: "number option"
  rr_modifier :: number
  rr_isSuccess :: "bool option"
  rr_statType :: string
  rr_difficulty :: "number option"

record LevelUpEvent =
  lu_stat :: StatType
  lu_oldValue :: int
  lu_newValue :: int

text \<open>The entries of \<^verbatim>\<open>npcs_update.add\<close> and \<^verbatim>\<open>npcs_update.update\<close>.\<close>

record NPCAdd =
  na_name :: string
  na_description :: string
  na_type :: string
  na_condition :: string

record NPCPatch =
  nu_name :: string
  nu_condition :: string
  nu_status :: "string option"

record NPCsUpdate =
  nu_add :: "NPCAdd list option"
  nu_update :: "NPCPatch list option"
  nu_remove :: "string list option"

record StoryTurn =
  t_id :: string
  t_text :: string
  t_choices :: "ChoiceData list option"
  t_isUserTurn :: bool
  t_rollResult :: "RollResult option"
  t_levelUpEvent :: "LevelUpEvent option"
  t_statsUpdated :: "PartialStats option"
  t_inventoryAdded :: "InventoryItem list option"
  t_inventoryRemoved :: "string list option"
  t_newEffects :: "StatusEffect list option"
  t_npcUpdates :: "NPCAdd list option"

text \<open>
  An entry of \<^verbatim>\<open>inventory_added\<close>. The text parser fills the bonuses under whatever
  three capital letters the response holds, so they are an association list here (the
  reconciler does not read them).
\<close>

record AddedItem =
  ai_name :: string
  ai_type :: string
  ai_description :: "string option"
  ai_bonuses :: "(string \<times> int) list option"

record EquipmentUpdate =
  eu_equip :: "string list option"
  eu_unequip :: "string list option"

record ActionResult =
  ar_stat :: string
  ar_difficulty :: "number option"
  ar_base_roll :: "number option"
  ar_total :: "number option"
  ar_is_success :: "bool option"

text \<open>
  The response of the AI. Its fields \<^verbatim>\<open>stats_update\<close> and \<^verbatim>\<open>npcs_update\<close> carry the
  prefix \<open>ai_\<close>: the plain names are the update functions of the game state's fields
  \<open>stats\<close> and \<open>npcs\<close>.
\<close>

record AIStoryResponse =
  narrative :: string
  choices :: "ChoiceData list option"
  inventory_added :: "AddedItem list option"
  inventory_removed :: "string list option"
  equipment_update :: "EquipmentUpdate option"
  quest_update :: "string option"
  hp_change :: "int option"
  game_status :: "GameStatus option"
  ai_stats_update :: "PartialStats option"
  new_effects :: "StatusEffect list option"
  ai_npcs_update :: "NPCsUpdate option"
  action_result :: "ActionResult option"

record GameState =
  inventory :: "InventoryItem list"
  equipped :: EquippedGear
  currentQuest :: string
  npcs :: "NPC list"
  history :: "StoryTurn list"
  isLoading :: bool
  isRolling :: bool
  hp :: int
  maxHp :: int
  hpHistory :: "int list"
  gameStatus :: GameStatus
  phase :: GamePhase
  genre :: string
  stats :: CharacterStats
  statExperience :: StatExperience
  activeEffects :: "StatusEffect list"
  startingStats :: CharacterStats
  finalSummary :: "string option"
  finalStoryboard :: "string option"
  customChoicesRemaining :: int
  mainStoryArc :: "string option"

text \<open>
  What the reconciler draws from outside: the item classifier of itemFactory.ts (its
  keyword tables and its random stat for a generic accessory), the random ids, the
  clock, the stat inferrer of statInference.ts and the random difficulty. The index
  is the number of the call within one response.
\<close>

record Env =
  classify :: "nat \<Rightarrow> string \<Rightarrow> ItemType \<times> PartialStats option"
  newItemId :: "nat \<Rightarrow> string"
  newEffectId :: "nat \<Rightarrow> string"
  newNpcId :: "nat \<Rightarrow> string"
  now :: string
  inferStatFromText :: "string \<Rightarrow> string option"
  randomFive :: "nat \<Rightarrow> int"

section \<open>Strings\<close>

text \<open>
  A string is a list of chars; the model is exact on ASCII text. \<^verbatim>\<open>toLowerCase\<close> and
  \<^verbatim>\<open>toUpperCase\<close> change the ASCII letters and leave every other char as it is.
\<close>

definition code :: "char \<Rightarrow> nat" where
  "code c = of_char c"

definition lowerChar :: "char \<Rightarrow> char" where
  "lowerChar c = (if 65 \<le> code c \<and> code c \<le> 90 then char_of (code c + 32) else c)"

definition upperChar :: "char \<Rightarrow> char" where
  "upperChar c = (if 97 \<le> code c \<and> code c \<le> 122 then char_of (code c - 32) else c)"

definition toLowerCase :: "string \<Rightarrow> string" where
  "toLowerCase s = map lowerChar s"

definition toUpperCase :: "string \<Rightarrow> string" where
  "toUpperCase s = map upperChar s"

text \<open>A string is truthy when it is not empty; a missing one is falsy.\<close>

fun truthyStr :: "string option \<Rightarrow> bool" where
  "truthyStr None = False"
| "truthyStr (Some s) = (s \<noteq> [])"

section \<open>Constants and derived stats (App.tsx)\<close>

definition BASE_HP :: int where
  "BASE_HP = 100"

definition EXP_THRESHOLD :: int where
  "EXP_THRESHOLD = 3"

definition allStats :: "StatType list" where
  "allStats = [S_STR, S_DEX, S_CON, S_INT, S_CHA, S_PER, S_LUK]"

text \<open>\<^verbatim>\<open>Math.floor((score - 10) / 2)\<close>; \<open>div\<close> on integers rounds down.\<close>

definition getMod :: "int \<Rightarrow> int" where
  "getMod score = (score - 10) div 2"

text \<open>\<^verbatim>\<open>applyBonus\<close>: each axis present (and not zero) in the bonuses is added.\<close>

definition applyBonus :: "PartialStats option \<Rightarrow> CharacterStats \<Rightarrow> CharacterStats" where
  "applyBonus bonuses calculated =
     (case bonuses of
        None \<Rightarrow> calculated
      | Some b \<Rightarrow> (\<lambda>k. case b k of None \<Rightarrow> calculated k | Some v \<Rightarrow> calculated k + v))"

definition slotBonuses :: "InventoryItem option \<Rightarrow> PartialStats option" where
  "slotBonuses it = (case it of None \<Rightarrow> None | Some i \<Rightarrow> item_bonuses i)"

definition calculateStats ::
  "CharacterStats \<Rightarrow> EquippedGear \<Rightarrow> StatusEffect list \<Rightarrow> InventoryItem option \<Rightarrow> CharacterStats" where
  "calculateStats baseStats eq effects extraItem =
     (let skipSlot = (case extraItem of
                        None \<Rightarrow> None
                      | Some x \<Rightarrow> (if item_type x = Misc then None else Some (item_type x)));
          c1 = (if skipSlot \<noteq> Some Weapon then applyBonus (slotBonuses (weapon eq)) baseStats
                else baseStats);
          c2 = (if skipSlot \<noteq> Some Armor then applyBonus (slotBonuses (armor eq)) c1 else c1);
          c3 = (if skipSlot \<noteq> Some Accessory then applyBonus (slotBonuses (accessory eq)) c2
                else c2);
          c4 = (case extraItem of None \<Rightarrow> c3 | Some x \<Rightarrow> applyBonus (item_bonuses x) c3)
      in foldl (\<lambda>c e. applyBonus (eff_statModifiers e) c) c4 effects)"

definition currentStats :: "GameState \<Rightarrow> CharacterStats" where
  "currentStats s = calculateStats (stats s) (equipped s) (activeEffects s) None"

definition isHeroicBlocked :: "GameState \<Rightarrow> bool" where
  "isHeroicBlocked s = list_ex (\<lambda>e. eff_blocksHeroicActions e = Some True) (activeEffects s)"

section \<open>The reconciler: the state update of generateAndProcessAIResponse\<close>

text \<open>
  \<^verbatim>\<open>createItemFromString\<close>: the name is kept, the id is fresh, type and bonuses come
  from the classifier, and there is no description.
\<close>

definition createItemFromString :: "Env \<Rightarrow> nat \<Rightarrow> string \<Rightarrow> InventoryItem" where
  "createItemFromString env k name =
     \<lparr>item_id = newItemId env k, item_name = name, item_type = fst (classify env k name),
      item_description = None, item_bonuses = snd (classify env k name)\<rparr>"

definition newItemsOf :: "Env \<Rightarrow> AIStoryResponse \<Rightarrow> InventoryItem list" where
  "newItemsOf env r =
     map (\<lambda>(k, aiItem).
            let factoryItem = createItemFromString env k (ai_name aiItem)
            in factoryItem\<lparr>item_description :=
                 (if truthyStr (ai_description aiItem) then ai_description aiItem
                  else item_description factoryItem)\<rparr>)
         (enumerate 0 (case inventory_added r of None \<Rightarrow> [] | Some xs \<Rightarrow> xs))"

definition removedNamesOf :: "AIStoryResponse \<Rightarrow> string list" where
  "removedNamesOf r =
     map toLowerCase (case inventory_removed r of None \<Rightarrow> [] | Some xs \<Rightarrow> xs)"

text \<open>
  \<^verbatim>\<open>[weapon?.id, armor?.id, accessory?.id].filter(Boolean)\<close>: an empty slot gives no
  id, and an empty id is dropped as well, being falsy.
\<close>

definition slotList :: "EquippedGear \<Rightarrow> InventoryItem list" where
  "slotList eq = List.map_filter (\<lambda>x. x) [weapon eq, armor eq, accessory eq]"

definition equippedIdsOf :: "EquippedGear \<Rightarrow> string list" where
  "equippedIdsOf eq = filter (\<lambda>i. i \<noteq> []) (map item_id (slotList eq))"

text \<open>
  The \<^verbatim>\<open>forEach\<close> over the old equipped items: an item that is neither still equipped
  nor destroyed goes back to the inventory unless an item of its id is there.
\<close>

fun returnOld :: "string list \<Rightarrow> string list \<Rightarrow> InventoryItem list \<Rightarrow> InventoryItem list \<Rightarrow> InventoryItem list" where
  "returnOld equippedIds removedNames [] finalInventory = finalInventory"
| "returnOld equippedIds removedNames (oldItem # rest) finalInventory =
     (let stillEquipped = (item_id oldItem \<in> set equippedIds);
          destroyed = (toLowerCase (item_name oldItem) \<in> set removedNames)
      in returnOld equippedIds removedNames rest
           (if \<not> stillEquipped \<and> \<not> destroyed
               \<and> find (\<lambda>i. item_id i = item_id oldItem) finalInventory = None
            then finalInventory @ [oldItem] else finalInventory))"

definition finalInventoryOf :: "Env \<Rightarrow> AIStoryResponse \<Rightarrow> GameState \<Rightarrow> InventoryItem list" where
  "finalInventoryOf env r prev =
     (let removedNames = removedNamesOf r;
          inv1 = inventory prev @ newItemsOf env r;
          inv2 = filter (\<lambda>item. toLowerCase (item_name item) \<notin> set removedNames) inv1;
          inv3 = (if length inv2 > 8 then take 8 inv2 else inv2);
          equippedIds = equippedIdsOf (equipped prev);
          inv4 = filter (\<lambda>i. item_id i \<notin> set equippedIds) inv3
      in returnOld equippedIds removedNames (slotList (equipped prev)) inv4)"

definition clearRemoved :: "string list \<Rightarrow> InventoryItem option \<Rightarrow> InventoryItem option" where
  "clearRemoved removedNames slot =
     (case slot of
        None \<Rightarrow> None
      | Some i \<Rightarrow> (if toLowerCase (item_name i) \<in> set removedNames then None else Some i))"

text \<open>
  The three slot checks. The result is \<^verbatim>\<open>equippedUpdated ? newEquipped : prev.equipped\<close>,
  and \<^verbatim>\<open>newEquipped\<close> differs from \<^verbatim>\<open>prev.equipped\<close> only in the cleared slots, so
  the flag does not show in the value.
\<close>

definition finalEquippedOf :: "AIStoryResponse \<Rightarrow> GameState \<Rightarrow> EquippedGear" where
  "finalEquippedOf r prev =
     (let removedNames = removedNamesOf r; eq = equipped prev
      in \<lparr>weapon = clearRemoved removedNames (weapon eq),
          armor = clearRemoved removedNames (armor eq),
          accessory = clearRemoved removedNames (accessory eq)\<rparr>)"

text \<open>
  The HP update: \<^verbatim>\<open>Math.min(prev.maxHp, Math.max(0, prev.hp + hpChange))\<close>, and at or
  below zero the status is forced to lost and the HP to zero.
\<close>

definition hpChangeOf :: "AIStoryResponse \<Rightarrow> int" where
  "hpChangeOf r = (case hp_change r of None \<Rightarrow> 0 | Some v \<Rightarrow> v)"

definition newHpOf :: "AIStoryResponse \<Rightarrow> GameState \<Rightarrow> int" where
  "newHpOf r prev =
     (let newHp = min (maxHp prev) (max 0 (hp prev + hpChangeOf r))
      in if newHp \<le> 0 then 0 else newHp)"

definition statusOf :: "AIStoryResponse \<Rightarrow> GameState \<Rightarrow> GameStatus" where
  "statusOf r prev =
     (let newHp = min (maxHp prev) (max 0 (hp prev + hpChangeOf r));
          status = (case game_status r of None \<Rightarrow> Ongoing | Some g \<Rightarrow> g)
      in if newHp \<le> 0 then Lost else status)"

text \<open>
  The base-stat update: each requested delta is cut to \<open>[-2, 5]\<close>, and a delta of zero
  is neither applied nor recorded. The keys of the object are distinct, so the order
  of the \<^verbatim>\<open>forEach\<close> does not show.
\<close>

definition clampDelta :: "int \<Rightarrow> int" where
  "clampDelta v = (let v1 = (if v > 5 then 5 else v) in if v1 < -2 then -2 else v1)"

definition statsAfterUpdate :: "AIStoryResponse \<Rightarrow> CharacterStats \<Rightarrow> CharacterStats" where
  "statsAfterUpdate r st =
     (case ai_stats_update r of
        None \<Rightarrow> st
      | Some su \<Rightarrow>
          (\<lambda>key. case su key of
                   None \<Rightarrow> st key
                 | Some v \<Rightarrow> (if clampDelta v \<noteq> 0 then st key + clampDelta v else st key)))"

definition finalStatsUpdateOf :: "AIStoryResponse \<Rightarrow> PartialStats option" where
  "finalStatsUpdateOf r =
     (case ai_stats_update r of
        None \<Rightarrow> None
      | Some su \<Rightarrow>
          (let fsu = (\<lambda>key. case su key of
                              None \<Rightarrow> None
                            | Some v \<Rightarrow> (if clampDelta v \<noteq> 0 then Some (clampDelta v) else None))
           in if list_all (\<lambda>key. fsu key = None) allStats then None else Some fsu))"

definition brandNewEffectsOf :: "Env \<Rightarrow> AIStoryResponse \<Rightarrow> StatusEffect list" where
  "brandNewEffectsOf env r =
     map (\<lambda>(k, e). e\<lparr>eff_id := newEffectId env k\<rparr>)
         (enumerate 0 (case new_effects r of None \<Rightarrow> [] | Some es \<Rightarrow> es))"

text \<open>The NPC merge: additions, then updates by lower-cased name, then removals by name.\<close>

definition npcAddOf :: "AIStoryResponse \<Rightarrow> NPCAdd list" where
  "npcAddOf r =
     (case ai_npcs_update r of
        None \<Rightarrow> []
      | Some u \<Rightarrow> (case nu_add u of None \<Rightarrow> [] | Some xs \<Rightarrow> xs))"

definition npcUpdateOf :: "AIStoryResponse \<Rightarrow> NPCPatch list" where
  "npcUpdateOf r =
     (case ai_npcs_update r of
        None \<Rightarrow> []
      | Some u \<Rightarrow> (case nu_update u of None \<Rightarrow> [] | Some xs \<Rightarrow> xs))"

definition npcRemoveOf :: "AIStoryResponse \<Rightarrow> string list" where
  "npcRemoveOf r =
     (case ai_npcs_update r of
        None \<Rightarrow> []
      | Some u \<Rightarrow> (case nu_remove u of None \<Rightarrow> [] | Some xs \<Rightarrow> xs))"

definition pushNPC :: "Env \<Rightarrow> nat \<times> NPCAdd \<Rightarrow> NPC" where
  "pushNPC env kn =
     \<lparr>npc_id = newNpcId env (fst kn), npc_name = na_name (snd kn),
      npc_description = na_description (snd kn), npc_type = na_type (snd kn),
      npc_condition = na_condition (snd kn)\<rparr>"

text \<open>\<^verbatim>\<open>findIndex\<close> and the patch of the entry found; no entry found, no change.\<close>

fun patchNPC :: "NPCPatch \<Rightarrow> NPC list \<Rightarrow> NPC list" where
  "patchNPC u [] = []"
| "patchNPC u (n # ns) =
     (if toLowerCase (npc_name n) = toLowerCase (nu_name u)
      then n\<lparr>npc_condition := nu_condition u,
             npc_type := (if truthyStr (nu_status u) then the (nu_status u) else npc_type n)\<rparr> # ns
      else n # patchNPC u ns)"

definition finalNPCsOf :: "Env \<Rightarrow> AIStoryResponse \<Rightarrow> GameState \<Rightarrow> NPC list" where
  "finalNPCsOf env r prev =
     (let added = npcs prev @ map (pushNPC env) (enumerate 0 (npcAddOf r));
          updated = foldl (\<lambda>ns u. patchNPC u ns) added (npcUpdateOf r)
      in filter (\<lambda>n. npc_name n \<notin> set (npcRemoveOf r)) updated)"

text \<open>
  \<^verbatim>\<open>currentExp + 1\<close> and \<^verbatim>\<open>nextExp >= EXP_THRESHOLD\<close> on a counter that can be missing:
  \<^verbatim>\<open>undefined + 1\<close> and \<^verbatim>\<open>NaN + 1\<close> are \<^verbatim>\<open>NaN\<close>, and \<^verbatim>\<open>NaN\<close> is at least nothing.
\<close>

definition plusOne :: "number option \<Rightarrow> number" where
  "plusOne v = (case v of Some (Num n) \<Rightarrow> Num (n + 1) | _ \<Rightarrow> NaN)"

fun numGe :: "number \<Rightarrow> int \<Rightarrow> bool" where
  "numGe (Num n) k = (k \<le> n)"
| "numGe NaN k = False"

text \<open>
  The XP step, written twice in the source with the same body (the state update of
  \<^verbatim>\<open>handleChoiceClick\<close> and the \<^verbatim>\<open>action_result\<close> branch of the reconciler): one more
  experience on the axis; at the threshold the counter goes to zero, the base stat goes
  up by one and a level-up event is made.
\<close>

definition gainExperience ::
  "StatType \<Rightarrow> CharacterStats \<Rightarrow> StatExperience
     \<Rightarrow> CharacterStats \<times> StatExperience \<times> LevelUpEvent option" where
  "gainExperience stat st ex =
     (let currentExp = ex stat; nextExp = plusOne currentExp
      in if numGe nextExp EXP_THRESHOLD
         then (let oldValue = st stat; newValue = oldValue + 1
               in (st(stat := newValue), ex(stat := Some (Num 0)),
                   Some \<lparr>lu_stat = stat, lu_oldValue = oldValue, lu_newValue = newValue\<rparr>))
         else (st, ex(stat := Some nextExp), None))"

text \<open>
  The stat of an action result is a string of the response. When it names none of the
  seven axes, the source writes \<^verbatim>\<open>NaN\<close> under a new key of the experience object and
  leaves the seven axes alone.
\<close>

definition statOfString :: "string \<Rightarrow> StatType option" where
  "statOfString s =
     (if s = ''STR'' then Some S_STR else if s = ''DEX'' then Some S_DEX
      else if s = ''CON'' then Some S_CON else if s = ''INT'' then Some S_INT
      else if s = ''CHA'' then Some S_CHA else if s = ''PER'' then Some S_PER
      else if s = ''LUK'' then Some S_LUK else None)"

definition numSub :: "number option \<Rightarrow> number option \<Rightarrow> number" where
  "numSub a b = (case (a, b) of (Some (Num x), Some (Num y)) \<Rightarrow> Num (x - y) | _ \<Rightarrow> NaN)"

definition customActionRollResultOf :: "AIStoryResponse \<Rightarrow> RollResult option" where
  "customActionRollResultOf r =
     (case action_result r of
        None \<Rightarrow> None
      | Some a \<Rightarrow>
          Some \<lparr>rr_total = ar_total a, rr_base = ar_base_roll a,
                rr_modifier = numSub (ar_total a) (ar_base_roll a),
                rr_isSuccess = ar_is_success a, rr_statType = ar_stat a,
                rr_difficulty = ar_difficulty a\<rparr>)"

definition afterActionResult ::
  "AIStoryResponse \<Rightarrow> CharacterStats \<Rightarrow> StatExperience
     \<Rightarrow> CharacterStats \<times> StatExperience \<times> LevelUpEvent option" where
  "afterActionResult r newStats finalStatExp =
     (case action_result r of
        None \<Rightarrow> (newStats, finalStatExp, None)
      | Some a \<Rightarrow>
          (if ar_is_success a = Some True
           then (case statOfString (ar_stat a) of
                   None \<Rightarrow> (newStats, finalStatExp, None)
                 | Some stat \<Rightarrow> gainExperience stat newStats finalStatExp)
           else (newStats, finalStatExp, None)))"

text \<open>
  The whole state update. The response is the one whose choices have been sanitized.
  The timer that sets the phase to game over a second later is not modelled; the
  returned state holds that phase already.
\<close>

definition aiTurnOf :: "Env \<Rightarrow> AIStoryResponse \<Rightarrow> GameState \<Rightarrow> StoryTurn" where
  "aiTurnOf env r prev =
     \<lparr>t_id = now env @ ''-ai'', t_text = narrative r, t_choices = choices r,
      t_isUserTurn = False,
      t_rollResult = customActionRollResultOf r,
      t_levelUpEvent =
        snd (snd (afterActionResult r (statsAfterUpdate r (stats prev)) (statExperience prev))),
      t_statsUpdated = finalStatsUpdateOf r,
      t_inventoryAdded = Some (newItemsOf env r),
      t_inventoryRemoved = inventory_removed r,
      t_newEffects = (if brandNewEffectsOf env r \<noteq> [] then Some (brandNewEffectsOf env r)
                      else None),
      t_npcUpdates = Some (npcAddOf r)\<rparr>"

definition applyAIResponse :: "Env \<Rightarrow> AIStoryResponse \<Rightarrow> GameState \<Rightarrow> GameState" where
  "applyAIResponse env r prev =
     (let result = afterActionResult r (statsAfterUpdate r (stats prev)) (statExperience prev);
          status = statusOf r prev;
          newHp = newHpOf r prev
      in prev\<lparr>history := history prev @ [aiTurnOf env r prev],
              inventory := finalInventoryOf env r prev,
              equipped := finalEquippedOf r prev,
              activeEffects := activeEffects prev @ brandNewEffectsOf env r,
              currentQuest := (if truthyStr (quest_update r) then the (quest_update r)
                               else currentQuest prev),
              npcs := finalNPCsOf env r prev,
              isLoading := False,
              hp := newHp,
              hpHistory := hpHistory prev @ [newHp],
              stats := fst result,
              statExperience := fst (snd result),
              gameStatus := status,
              phase := (if status = Ongoing then Playing else Game_over)\<rparr>)"

section \<open>The turn lifecycle (App.tsx)\<close>

record CustomAction =
  ca_text :: string
  ca_item :: string
  ca_roll :: int

record TurnParams =
  p_userText :: string
  p_rollResult :: "RollResult option"
  p_customAction :: "CustomAction option"
  p_overrideArc :: "string option"
  p_decrementedEffects :: "StatusEffect list"

text \<open>
  The state of \<^verbatim>\<open>App\<close> that the turn handlers read and write: the game state, the
  request counter \<^verbatim>\<open>requestIdRef.current\<close>, the parameters of the last turn, the retry
  flag, the choices on offer, the pending roll, and the dice setting. The counter is
  a natural number (a double counts exactly far beyond any number of requests).
\<close>

record AppState =
  gameState :: GameState
  requestIdRef :: nat
  lastTurnParams :: "TurnParams option"
  showRetry :: bool
  currentChoices :: "ChoiceData list"
  pendingChoice :: "ChoiceData option"
  pendingRoll :: "int option"
  enableDiceRolls :: bool

text \<open>
  \<^verbatim>\<open>generateAndProcessAIResponse\<close> runs in two parts. Up to the \<^verbatim>\<open>await\<close> it takes the
  next request id (\<^verbatim>\<open>++requestIdRef.current\<close>) and sends the request; the id stays in
  the closure. \<open>issueRequest\<close> returns that id with the new state.
\<close>

definition issueRequest :: "AppState \<Rightarrow> nat \<times> AppState" where
  "issueRequest a = (Suc (requestIdRef a), a\<lparr>requestIdRef := Suc (requestIdRef a)\<rparr>)"

text \<open>The sanitizing of the choices of a response.\<close>

definition sanitizeChoice :: "Env \<Rightarrow> nat \<times> ChoiceData \<Rightarrow> ChoiceData" where
  "sanitizeChoice env kc =
     (let c = snd kc;
          type1 = (if \<not> truthyStr (ch_type c) \<and> truthyStr (inferStatFromText env (ch_text c))
                   then inferStatFromText env (ch_text c) else ch_type c);
          difficulty1 = (if truthyStr type1 \<and> ch_difficulty c = None
                         then Some (Num (8 + randomFive env (fst kc))) else ch_difficulty c)
      in c\<lparr>ch_type := type1, ch_difficulty := difficulty1\<rparr>)"

definition sanitizeChoices :: "Env \<Rightarrow> AIStoryResponse \<Rightarrow> AIStoryResponse" where
  "sanitizeChoices env r =
     (case choices r of
        None \<Rightarrow> r
      | Some cs \<Rightarrow> r\<lparr>choices := Some (map (sanitizeChoice env) (enumerate 0 cs))\<rparr>)"

text \<open>
  After the \<^verbatim>\<open>await\<close>: the response of the request issued under id \<open>rid\<close> arrives. When
  \<open>rid\<close> is not the current id, the function returns at once. Otherwise the choices are
  sanitized, the game state is reconciled and the choices on offer are replaced.
\<close>

definition responseArrives :: "Env \<Rightarrow> nat \<Rightarrow> AIStoryResponse \<Rightarrow> AppState \<Rightarrow> AppState" where
  "responseArrives env rid r a =
     (if rid \<noteq> requestIdRef a then a
      else (let r1 = sanitizeChoices env r
            in a\<lparr>gameState := applyAIResponse env r1 (gameState a),
                 currentChoices := (case choices r1 of None \<Rightarrow> [] | Some cs \<Rightarrow> cs)\<rparr>))"

text \<open>The \<^verbatim>\<open>catch\<close> branch: the request issued under id \<open>rid\<close> fails.\<close>

definition requestFails :: "nat \<Rightarrow> AppState \<Rightarrow> AppState" where
  "requestFails rid a =
     (if rid = requestIdRef a
      then a\<lparr>gameState := (gameState a)\<lparr>isLoading := False\<rparr>, showRetry := True\<rparr>
      else a)"

definition decrementEffects :: "StatusEffect list \<Rightarrow> StatusEffect list" where
  "decrementEffects effects =
     filter (\<lambda>e. eff_duration e > 0) (map (\<lambda>e. e\<lparr>eff_duration := eff_duration e - 1\<rparr>) effects)"

text \<open>
  \<^verbatim>\<open>processTurn\<close>: the user's turn is appended, the effects are decremented, the
  parameters are kept for a retry, and the request is issued. \<open>clock\<close> is
  \<^verbatim>\<open>Date.now().toString()\<close>.
\<close>

definition processTurn ::
  "string \<Rightarrow> string \<Rightarrow> RollResult option \<Rightarrow> CustomAction option \<Rightarrow> LevelUpEvent option
     \<Rightarrow> string option \<Rightarrow> AppState \<Rightarrow> nat \<times> AppState" where
  "processTurn clock userText rollResult customAction levelUpEvent overrideArc a =
     (let userTurn = \<lparr>t_id = clock @ ''-user'',
                      t_text = filter (\<lambda>c. c \<noteq> CHR ''*'') userText,
                      t_choices = Some [], t_isUserTurn = True, t_rollResult = rollResult,
                      t_levelUpEvent = levelUpEvent, t_statsUpdated = None,
                      t_inventoryAdded = None, t_inventoryRemoved = None, t_newEffects = None,
                      t_npcUpdates = None\<rparr>;
          decrementedEffects = decrementEffects (activeEffects (gameState a));
          a1 = a\<lparr>lastTurnParams :=
                    Some \<lparr>p_userText = userText, p_rollResult = rollResult,
                          p_customAction = customAction, p_overrideArc = overrideArc,
                          p_decrementedEffects = decrementedEffects\<rparr>\<rparr>;
          a2 = a1\<lparr>gameState :=
                     (gameState a1)\<lparr>history := history (gameState a1) @ [userTurn],
                                     isLoading := True,
                                     activeEffects := decrementedEffects\<rparr>\<rparr>
      in issueRequest a2)"

definition handleStopRequest :: "AppState \<Rightarrow> AppState" where
  "handleStopRequest a =
     a\<lparr>requestIdRef := requestIdRef a + 1,
       gameState := (gameState a)\<lparr>isLoading := False\<rparr>,
       showRetry := True\<rparr>"

text \<open>The handlers below return the id of the request they issue, if they issue one.\<close>

definition handleRetryRequest :: "AppState \<Rightarrow> nat option \<times> AppState" where
  "handleRetryRequest a =
     (case lastTurnParams a of
        None \<Rightarrow> (None, a)
      | Some params \<Rightarrow>
          (let a1 = a\<lparr>showRetry := False, gameState := (gameState a)\<lparr>isLoading := True\<rparr>\<rparr>
           in (Some (fst (issueRequest a1)), snd (issueRequest a1))))"

text \<open>
  \<^verbatim>\<open>handleCustomChoiceSubmit\<close>: nothing happens when the budget is used up or a status
  effect blocks heroic actions (the alert is not part of the state). Otherwise the name
  of the item is looked up, the budget goes down by one and the turn is processed.
  \<open>roll\<close> is the random d20.
\<close>

definition itemNameOf :: "string option \<Rightarrow> GameState \<Rightarrow> string" where
  "itemNameOf itemId s =
     (if truthyStr itemId
      then (case find (\<lambda>i. item_id i = the itemId) (inventory s @ slotList (equipped s)) of
              None \<Rightarrow> ''None''
            | Some found \<Rightarrow> item_name found)
      else ''None'')"

definition handleCustomChoiceSubmit ::
  "string \<Rightarrow> int \<Rightarrow> string \<Rightarrow> string option \<Rightarrow> AppState \<Rightarrow> nat option \<times> AppState" where
  "handleCustomChoiceSubmit clock roll text itemId a =
     (if customChoicesRemaining (gameState a) \<le> 0 then (None, a)
      else if isHeroicBlocked (gameState a) then (None, a)
      else (let itemName = itemNameOf itemId (gameState a);
                a1 = a\<lparr>gameState :=
                         (gameState a)\<lparr>customChoicesRemaining :=
                                         customChoicesRemaining (gameState a) - 1\<rparr>\<rparr>;
                res = processTurn clock text None
                        (Some \<lparr>ca_text = text, ca_item = itemName, ca_roll = roll\<rparr>) None None a1
            in (Some (fst res), snd res)))"

text \<open>
  The state update of \<^verbatim>\<open>handleChoiceClick\<close> for a roll on the axis \<open>statType\<close>: the
  rolling flag is set, and a success gains experience. The second component is the
  level-up event that the update assigns to the variable \<^verbatim>\<open>levelUpEvent\<close> of the
  handler when it runs.
\<close>

definition rollUpdate :: "StatType \<Rightarrow> bool \<Rightarrow> GameState \<Rightarrow> GameState \<times> LevelUpEvent option" where
  "rollUpdate statType isSuccess prev =
     (let newState = prev\<lparr>isRolling := True\<rparr>
      in if isSuccess
         then (let g = gainExperience statType (stats prev) (statExperience prev)
               in (newState\<lparr>statExperience := fst (snd g), stats := fst g\<rparr>, snd (snd g)))
         else (newState, None))"

fun truthyNum :: "number option \<Rightarrow> bool" where
  "truthyNum (Some (Num n)) = (n \<noteq> 0)"
| "truthyNum _ = False"

text \<open>
  \<^verbatim>\<open>handleChoiceClick\<close>, with the d20 \<open>rollBase\<close> drawn outside. A type that names no
  axis gives \<^verbatim>\<open>NaN\<close> as modifier and total, so the check fails and no state update
  touches the experience.

  The state update is a function handed to \<^verbatim>\<open>setGameState\<close>, and the handler reads the
  variable \<^verbatim>\<open>levelUpEvent\<close> right after that call, when it calls \<^verbatim>\<open>processTurn\<close>. React
  queues the function and calls it when it renders, after the handler has returned;
  then the variable is still \<^verbatim>\<open>undefined\<close> when it is read, and the user turn carries no
  event. Only when the component has no update pending at all does React call the
  function inside \<^verbatim>\<open>setGameState\<close>. \<open>eager\<close> says which of the two happened; the
  stats and the counters that result are the same.
\<close>

definition handleChoiceClick ::
  "bool \<Rightarrow> string \<Rightarrow> int \<Rightarrow> ChoiceData \<Rightarrow> AppState \<Rightarrow> nat option \<times> AppState" where
  "handleChoiceClick eager clock rollBase choice a =
     (if isLoading (gameState a) \<or> isRolling (gameState a) then (None, a)
      else if enableDiceRolls a \<and> truthyNum (ch_difficulty choice) \<and> truthyStr (ch_type choice)
      then (let difficulty = (case ch_difficulty choice of Some (Num d) \<Rightarrow> d | _ \<Rightarrow> 0);
                axis = statOfString (the (ch_type choice));
                modifier = (case axis of None \<Rightarrow> NaN
                            | Some st \<Rightarrow> Num (getMod (currentStats (gameState a) st)));
                total = (case modifier of NaN \<Rightarrow> NaN | Num m \<Rightarrow> Num (rollBase + m));
                isSuccess = (case total of NaN \<Rightarrow> False | Num t \<Rightarrow> t \<ge> difficulty);
                result = \<lparr>rr_total = Some total, rr_base = Some (Num rollBase),
                          rr_modifier = modifier, rr_isSuccess = Some isSuccess,
                          rr_statType = the (ch_type choice),
                          rr_difficulty = ch_difficulty choice\<rparr>;
                upd = (case axis of
                         None \<Rightarrow> ((gameState a)\<lparr>isRolling := True\<rparr>, None)
                       | Some st \<Rightarrow> rollUpdate st isSuccess (gameState a));
                levelUpEvent = (if eager then snd upd else None);
                a1 = a\<lparr>gameState := fst upd, pendingChoice := Some choice,
                        pendingRoll := Some rollBase\<rparr>;
                res = processTurn clock (ch_text choice) (Some result) None levelUpEvent None a1
            in (Some (fst res), snd res))
      else (let res = processTurn clock (ch_text choice) None None None None a
            in (Some (fst res), snd res)))"

definition handleRollComplete :: "AppState \<Rightarrow> AppState" where
  "handleRollComplete a =
     a\<lparr>gameState := (gameState a)\<lparr>isRolling := False\<rparr>, pendingChoice := None,
       pendingRoll := None\<rparr>"

text \<open>
  The events of the lifecycle, each one a handler or an arrival, and a run of events.
\<close>

datatype Event =
    ChoiceClick bool string int ChoiceData
  | CustomChoiceSubmit string int string "string option"
  | StopRequest
  | RetryRequest
  | RollComplete
  | ResponseArrives nat AIStoryResponse
  | RequestFails nat

fun step :: "Env \<Rightarrow> AppState \<Rightarrow> Event \<Rightarrow> AppState" where
  "step env a (ChoiceClick eager clock rollBase choice) =
     snd (handleChoiceClick eager clock rollBase choice a)"
| "step env a (CustomChoiceSubmit clock roll text itemId) =
     snd (handleCustomChoiceSubmit clock roll text itemId a)"
| "step env a StopRequest = handleStopRequest a"
| "step env a RetryRequest = snd (handleRetryRequest a)"
| "step env a RollComplete = handleRollComplete a"
| "step env a (ResponseArrives rid r) = responseArrives env rid r a"
| "step env a (RequestFails rid) = requestFails rid a"

definition run :: "Env \<Rightarrow> Event list \<Rightarrow> AppState \<Rightarrow> AppState" where
  "run env events a = foldl (step env) a events"

section \<open>Equipment handlers and the recomputation of the maximal HP (App.tsx)\<close>

definition slotItem :: "ItemType \<Rightarrow> EquippedGear \<Rightarrow> InventoryItem option" where
  "slotItem ty eq =
     (case ty of Weapon \<Rightarrow> weapon eq | Armor \<Rightarrow> armor eq | Accessory \<Rightarrow> accessory eq
      | Misc \<Rightarrow> None)"

definition setSlot :: "ItemType \<Rightarrow> InventoryItem option \<Rightarrow> EquippedGear \<Rightarrow> EquippedGear" where
  "setSlot ty v eq =
     (case ty of Weapon \<Rightarrow> eq\<lparr>weapon := v\<rparr> | Armor \<Rightarrow> eq\<lparr>armor := v\<rparr>
      | Accessory \<Rightarrow> eq\<lparr>accessory := v\<rparr> | Misc \<Rightarrow> eq)"

definition handleEquip :: "InventoryItem \<Rightarrow> GameState \<Rightarrow> GameState" where
  "handleEquip item prev =
     (let newInventory = filter (\<lambda>i. item_id i \<noteq> item_id item) (inventory prev)
      in if item_type item = Misc then prev
         else prev\<lparr>inventory :=
                     (case slotItem (item_type item) (equipped prev) of
                        None \<Rightarrow> newInventory
                      | Some oldItem \<Rightarrow> newInventory @ [oldItem]),
                   equipped := setSlot (item_type item) (Some item) (equipped prev)\<rparr>)"

definition handleUnequip :: "InventoryItem \<Rightarrow> GameState \<Rightarrow> GameState" where
  "handleUnequip item prev =
     (if length (inventory prev) \<ge> 8 then prev
      else if item_type item = Misc then prev
      else if map_option item_id (slotItem (item_type item) (equipped prev)) \<noteq> Some (item_id item)
      then prev
      else prev\<lparr>equipped := setSlot (item_type item) None (equipped prev),
                inventory := inventory prev @ [item]\<rparr>)"

definition handleDiscard :: "InventoryItem \<Rightarrow> GameState \<Rightarrow> GameState" where
  "handleDiscard item prev =
     prev\<lparr>inventory := filter (\<lambda>i. item_id i \<noteq> item_id item) (inventory prev)\<rparr>"

text \<open>
  The rescaling of the HP divides and multiplies in double arithmetic. A double is a
  rational number here, and \<open>fl\<close> rounds a rational to the nearest number with a
  significand of 53 bits, ties to even (the exponent is not bounded: the values of the
  game are far from overflow and underflow). \<open>expo x\<close> is the exponent of \<open>x\<close>, that is
  \<open>\<lfloor>log\<^sub>2 \<bar>x\<bar>\<rfloor>\<close>. \<^verbatim>\<open>Math.round\<close> rounds to the nearest integer, a half upwards.
\<close>

definition expo :: "rat \<Rightarrow> int" where
  "expo x =
     (let p = fst (quotient_of \<bar>x\<bar>); q = snd (quotient_of \<bar>x\<bar>); k = bitlen p - bitlen q
      in if 2 powi k \<le> \<bar>x\<bar> then k else k - 1)"

definition roundHalfEven :: "rat \<Rightarrow> int" where
  "roundHalfEven x =
     (let f = \<lfloor>x\<rfloor>; d = x - of_int f
      in if d < 1 / 2 then f else if 1 / 2 < d then f + 1 else if even f then f else f + 1)"

definition fl :: "rat \<Rightarrow> rat" where
  "fl x = (if x = 0 then 0
           else (let u = 2 powi (expo x - 52) in of_int (roundHalfEven (x / u)) * u))"

definition jsRound :: "rat \<Rightarrow> int" where
  "jsRound y = \<lfloor>y + 1 / 2\<rfloor>"

text \<open>
  The effect that runs when the effective Constitution has changed. The new maximum is
  \<^verbatim>\<open>BASE_HP + getMod(currentStats.CON) * 10\<close>. When it differs from the stored one, the
  HP becomes \<^verbatim>\<open>Math.round(newMax * (prev.hp / prev.maxHp))\<close>. With a stored maximum of
  zero the ratio is \<^verbatim>\<open>NaN\<close> or infinite and the HP is no integer any more: the result
  is \<open>None\<close>.
\<close>

definition newMaxHpOf :: "GameState \<Rightarrow> int" where
  "newMaxHpOf s = BASE_HP + getMod (currentStats s S_CON) * 10"

definition recalcMaxHp :: "GameState \<Rightarrow> GameState option" where
  "recalcMaxHp prev =
     (let newMax = newMaxHpOf prev
      in if maxHp prev \<noteq> newMax
         then (if maxHp prev = 0 then None
               else (let ratio = fl (of_int (hp prev) / of_int (maxHp prev))
                     in Some (prev\<lparr>maxHp := newMax,
                                    hp := jsRound (fl (of_int newMax * ratio))\<rparr>)))
         else Some prev)"

section \<open>The normalizer of delimited text: parseTextResponse (services/gemini.ts)\<close>

text \<open>
  White space is the ASCII part of what \<^verbatim>\<open>trim\<close> and \<^verbatim>\<open>\s\<close> take for it.
\<close>

definition isWs :: "char \<Rightarrow> bool" where
  "isWs c = (code c \<in> {9, 10, 11, 12, 13, 32})"

definition isBlank :: "char \<Rightarrow> bool" where
  "isBlank c = (code c = 32 \<or> code c = 9)"

definition isDigit :: "char \<Rightarrow> bool" where
  "isDigit c = (48 \<le> code c \<and> code c \<le> 57)"

definition isUpper :: "char \<Rightarrow> bool" where
  "isUpper c = (65 \<le> code c \<and> code c \<le> 90)"

definition isNameChar :: "char \<Rightarrow> bool" where
  "isNameChar c = (isUpper c \<or> c = CHR ''_'')"

definition CR :: char where "CR = CHR 0x0D"
definition LF :: char where "LF = CHR 0x0A"

definition trim :: "string \<Rightarrow> string" where
  "trim s = rev (dropWhile isWs (rev (dropWhile isWs s)))"

definition startsWith :: "string \<Rightarrow> string \<Rightarrow> bool" where
  "startsWith p s = (take (length p) s = p)"

fun removeFirst :: "string \<Rightarrow> string \<Rightarrow> string" where
  "removeFirst p [] = []"
| "removeFirst p (c # cs) =
     (if startsWith p (c # cs) then drop (length p) (c # cs) else c # removeFirst p cs)"

fun splitOn :: "char \<Rightarrow> string \<Rightarrow> string \<times> string list" where
  "splitOn sep [] = ([], [])"
| "splitOn sep (c # cs) =
     (case splitOn sep cs of
        (p, ps) \<Rightarrow> (if c = sep then ([], p # ps) else (c # p, ps)))"

fun splitLines :: "string \<Rightarrow> string list" where
  "splitLines [] = [[]]"
| "splitLines [c] = (if c = LF then [[], []] else [[c]])"
| "splitLines (c # d # cs) =
     (if c = CR \<and> d = LF then [] # splitLines cs
      else if c = LF then [] # splitLines (d # cs)
      else (case splitLines (d # cs) of l # ls \<Rightarrow> (c # l) # ls | [] \<Rightarrow> [[c]]))"


definition nthOpt :: "'a list \<Rightarrow> nat \<Rightarrow> 'a option" where
  "nthOpt xs i = (if i < length xs then Some (xs ! i) else None)"

text \<open>
  \<^verbatim>\<open>parseInt\<close> without a radix: leading white space, a sign, then hexadecimal digits
  after \<^verbatim>\<open>0x\<close> or decimal digits; without a digit the result is \<^verbatim>\<open>NaN\<close>. The result
  is the integer the digits denote (a double holds it exactly up to \<open>2\<^sup>5\<^sup>3\<close>).
\<close>

definition digitVal :: "char \<Rightarrow> int" where
  "digitVal c =
     (if isDigit c then int (code c) - 48
      else if 97 \<le> code c \<and> code c \<le> 102 then int (code c) - 87
      else int (code c) - 55)"

definition isHexDigit :: "char \<Rightarrow> bool" where
  "isHexDigit c =
     (isDigit c \<or> (97 \<le> code c \<and> code c \<le> 102) \<or> (65 \<le> code c \<and> code c \<le> 70))"

definition digitsValue :: "int \<Rightarrow> string \<Rightarrow> int" where
  "digitsValue radix ds = foldl (\<lambda>a d. a * radix + digitVal d) 0 ds"

definition parseInt :: "string \<Rightarrow> number" where
  "parseInt s =
     (let s1 = dropWhile isWs s;
          negative = startsWith ''-'' s1;
          s2 = (if startsWith ''-'' s1 \<or> startsWith ''+'' s1 then drop 1 s1 else s1);
          hex = (startsWith ''0x'' s2 \<or> startsWith ''0X'' s2);
          ds = (if hex then takeWhile isHexDigit (drop 2 s2) else takeWhile isDigit s2);
          v = digitsValue (if hex then 16 else 10) ds
      in if ds = [] then NaN else Num (if negative then - v else v))"

definition parseIntOpt :: "string option \<Rightarrow> number" where
  "parseIntOpt v = (case v of None \<Rightarrow> NaN | Some s \<Rightarrow> parseInt s)"

text \<open>\<^verbatim>\<open>n || d\<close> for a number: \<^verbatim>\<open>NaN\<close> and zero are falsy.\<close>

definition numOr :: "number \<Rightarrow> int \<Rightarrow> int" where
  "numOr n d = (case n of NaN \<Rightarrow> d | Num v \<Rightarrow> (if v = 0 then d else v))"

text \<open>
  A line of the section \<^verbatim>\<open>CHOICES\<close>: the enumeration \<^verbatim>\<open>/^\d+\.\s*/\<close> is removed, the
  line is split at \<^verbatim>\<open>|\<close>, brackets around the text are removed, the type \<^verbatim>\<open>NONE\<close> or an
  empty one means no check, and the difficulty is parsed when it is there.
\<close>

definition stripEnumeration :: "string \<Rightarrow> string" where
  "stripEnumeration line =
     (let ds = takeWhile isDigit line; rest = dropWhile isDigit line
      in if ds \<noteq> [] \<and> startsWith ''.'' rest then dropWhile isWs (drop 1 rest) else line)"

definition parseChoice :: "string \<Rightarrow> ChoiceData" where
  "parseChoice line =
     (let sp = splitOn (CHR ''|'') (stripEnumeration line);
          parts = map trim (fst sp # snd sp);
          text0 = trim (fst sp);
          text1 = (if startsWith ''['' text0 \<and> text0 \<noteq> [] \<and> last text0 = CHR '']''
                   then butlast (drop 1 text0) else text0);
          type = (if nthOpt parts 1 = Some ''NONE'' \<or> \<not> truthyStr (nthOpt parts 1) then None
                  else nthOpt parts 1);
          difficulty = (if truthyStr (nthOpt parts 2) then Some (parseIntOpt (nthOpt parts 2))
                        else None)
      in \<lparr>ch_text = text1, ch_type = type, ch_difficulty = difficulty\<rparr>)"

definition parseChoices :: "string \<Rightarrow> ChoiceData list" where
  "parseChoices sec = map parseChoice (filter (\<lambda>l. trim l \<noteq> []) (splitLines sec))"

text \<open>
  The bonuses of an added item: the matches of
  \<^verbatim>\<open>/([A-Z]{3})\s*[:=+]?\s*(\d+)/g\<close> from left to right. \<open>matchBonus\<close> matches the
  expression at the start of a string and returns the pair and the rest; the character
  classes of its parts are disjoint, so the greedy match is the only one.
\<close>

definition matchBonus :: "string \<Rightarrow> ((string \<times> int) \<times> string) option" where
  "matchBonus s =
     (let stat = take 3 s;
          s1 = dropWhile isWs (drop 3 s);
          s2 = (if startsWith '':'' s1 \<or> startsWith ''='' s1 \<or> startsWith ''+'' s1
                then drop 1 s1 else s1);
          s3 = dropWhile isWs s2;
          ds = takeWhile isDigit s3
      in if length stat = 3 \<and> list_all isUpper stat \<and> ds \<noteq> []
         then Some ((stat, digitsValue 10 ds), dropWhile isDigit s3) else None)"

lemma matchBonus_shorter: "matchBonus s = Some (b, rest) \<Longrightarrow> length rest < length s"
proof -
  assume a: "matchBonus s = Some (b, rest)"
  have le: "length (dropWhile P xs) \<le> length xs" for P and xs :: string
    by (rule length_dropWhile_le)
  define s1 where "s1 = dropWhile isWs (drop 3 s)"
  define s2 where "s2 = (if startsWith '':'' s1 \<or> startsWith ''='' s1 \<or> startsWith ''+'' s1
                then drop 1 s1 else s1)"
  define s3 where "s3 = dropWhile isWs s2"
  from a have r: "rest = dropWhile isDigit s3" and l: "length (take 3 s) = 3"
    by (auto simp: matchBonus_def Let_def s1_def s2_def s3_def split: if_splits)
  have "length rest \<le> length s3" unfolding r by (rule le)
  also have "\<dots> \<le> length s2" unfolding s3_def by (rule le)
  also have "\<dots> \<le> length s1" by (simp add: s2_def)
  also have "\<dots> \<le> length (drop 3 s)" unfolding s1_def by (rule le)
  also have "\<dots> < length s" using l by simp
  finally show ?thesis .
qed

function bonusScan :: "string \<Rightarrow> (string \<times> int) list" where
  "bonusScan [] = []"
| "bonusScan (c # cs) =
     (case matchBonus (c # cs) of
        Some (b, rest) \<Rightarrow> b # bonusScan rest
      | None \<Rightarrow> bonusScan cs)"
  by pat_completeness auto
termination
  by (relation "measure length") (auto dest: matchBonus_shorter)

text \<open>\<^verbatim>\<open>bonuses[stat] = val\<close>: a key that is there keeps its place.\<close>

definition setKey :: "string \<Rightarrow> int \<Rightarrow> (string \<times> int) list \<Rightarrow> (string \<times> int) list" where
  "setKey k v obj =
     (if k \<in> set (map fst obj) then map (\<lambda>kv. if fst kv = k then (k, v) else kv) obj
      else obj @ [(k, v)])"

definition parseBonuses :: "string \<Rightarrow> (string \<times> int) list" where
  "parseBonuses s = foldl (\<lambda>obj kv. setKey (fst kv) (snd kv) obj) [] (bonusScan s)"


text \<open>
  The lines of the section \<^verbatim>\<open>UPDATES\<close>. Every key is tested with \<^verbatim>\<open>startsWith\<close> and
  taken away with \<^verbatim>\<open>replace\<close>, which removes the first occurrence.
\<close>

definition partsAfter :: "string \<Rightarrow> string \<Rightarrow> string list" where
  "partsAfter key cleanLine =
     (let sp = splitOn (CHR ''|'') (removeFirst key cleanLine) in map trim (fst sp # snd sp))"

definition firstPartAfter :: "string \<Rightarrow> string \<Rightarrow> string" where
  "firstPartAfter key cleanLine = trim (fst (splitOn (CHR ''|'') (removeFirst key cleanLine)))"

definition strOr :: "string option \<Rightarrow> string \<Rightarrow> string" where
  "strOr v d = (if truthyStr v then the v else d)"

definition listOr :: "'a list option \<Rightarrow> 'a list" where
  "listOr xs = (case xs of None \<Rightarrow> [] | Some ys \<Rightarrow> ys)"

definition hpStep :: "string \<Rightarrow> AIStoryResponse \<Rightarrow> AIStoryResponse" where
  "hpStep cleanLine r =
     (if startsWith ''HP:'' cleanLine
      then r\<lparr>hp_change := Some (numOr (parseInt (trim (removeFirst ''HP:'' cleanLine))) 0)\<rparr>
      else r)"

definition statusStep :: "string \<Rightarrow> AIStoryResponse \<Rightarrow> AIStoryResponse" where
  "statusStep cleanLine r =
     (if startsWith ''STATUS:'' cleanLine
      then (let status = trim (removeFirst ''STATUS:'' cleanLine)
            in if status = ''won'' then r\<lparr>game_status := Some Won\<rparr>
               else if status = ''lost'' then r\<lparr>game_status := Some Lost\<rparr>
               else r\<lparr>game_status := Some Ongoing\<rparr>)
      else r)"

definition questStep :: "string \<Rightarrow> AIStoryResponse \<Rightarrow> AIStoryResponse" where
  "questStep cleanLine r =
     (if startsWith ''QUEST:'' cleanLine
      then (let q = trim (removeFirst ''QUEST:'' cleanLine)
            in if q \<noteq> ''SAME'' then r\<lparr>quest_update := Some q\<rparr> else r)
      else r)"

text \<open>
  The steps for items, equipment and effects return the response and whether the loop
  goes on to the next line at once (\<^verbatim>\<open>continue\<close>), as it does for the name \<^verbatim>\<open>NONE\<close> in
  any case of letters.
\<close>

definition itemAddStep :: "string \<Rightarrow> AIStoryResponse \<Rightarrow> AIStoryResponse \<times> bool" where
  "itemAddStep cleanLine r =
     (if startsWith ''ITEM_ADD:'' cleanLine
      then (let parts = partsAfter ''ITEM_ADD:'' cleanLine;
                name = firstPartAfter ''ITEM_ADD:'' cleanLine
            in if toUpperCase name = ''NONE'' then (r, True)
               else (let bonuses = (if truthyStr (nthOpt parts 3) \<and> nthOpt parts 3 \<noteq> Some ''NONE''
                                    then Some (parseBonuses (the (nthOpt parts 3))) else None)
                     in (r\<lparr>inventory_added :=
                             Some (listOr (inventory_added r)
                                   @ [\<lparr>ai_name = name, ai_type = strOr (nthOpt parts 1) ''misc'',
                                       ai_description = Some (strOr (nthOpt parts 2) []),
                                       ai_bonuses = bonuses\<rparr>])\<rparr>, False)))
      else (r, False))"

definition itemRemoveStep :: "string \<Rightarrow> AIStoryResponse \<Rightarrow> AIStoryResponse \<times> bool" where
  "itemRemoveStep cleanLine r =
     (if startsWith ''ITEM_REMOVE:'' cleanLine
      then (let name = trim (removeFirst ''ITEM_REMOVE:'' cleanLine)
            in if toUpperCase name = ''NONE'' then (r, True)
               else (r\<lparr>inventory_removed := Some (listOr (inventory_removed r) @ [name])\<rparr>,
                     False))
      else (r, False))"

definition equipmentOr :: "EquipmentUpdate option \<Rightarrow> EquipmentUpdate" where
  "equipmentOr e = (case e of None \<Rightarrow> \<lparr>eu_equip = Some [], eu_unequip = Some []\<rparr> | Some u \<Rightarrow> u)"

text \<open>\<^verbatim>\<open>xs?.push(name)\<close>\<close>

definition pushOpt :: "string list option \<Rightarrow> string \<Rightarrow> string list option" where
  "pushOpt xs name = (case xs of None \<Rightarrow> None | Some ys \<Rightarrow> Some (ys @ [name]))"

definition equipStep :: "string \<Rightarrow> AIStoryResponse \<Rightarrow> AIStoryResponse \<times> bool" where
  "equipStep cleanLine r =
     (if startsWith ''EQUIP:'' cleanLine
      then (let name = trim (removeFirst ''EQUIP:'' cleanLine)
            in if toUpperCase name = ''NONE'' then (r, True)
               else (let u = equipmentOr (equipment_update r)
                     in (r\<lparr>equipment_update := Some (u\<lparr>eu_equip := pushOpt (eu_equip u) name\<rparr>)\<rparr>,
                         False)))
      else (r, False))"

definition unequipStep :: "string \<Rightarrow> AIStoryResponse \<Rightarrow> AIStoryResponse \<times> bool" where
  "unequipStep cleanLine r =
     (if startsWith ''UNEQUIP:'' cleanLine
      then (let name = trim (removeFirst ''UNEQUIP:'' cleanLine)
            in if toUpperCase name = ''NONE'' then (r, True)
               else (let u = equipmentOr (equipment_update r)
                     in (r\<lparr>equipment_update := Some (u\<lparr>eu_unequip := pushOpt (eu_unequip u) name\<rparr>)\<rparr>,
                         False)))
      else (r, False))"

definition effectAddStep ::
  "(nat \<Rightarrow> string) \<Rightarrow> string \<Rightarrow> AIStoryResponse \<Rightarrow> AIStoryResponse \<times> bool" where
  "effectAddStep ids cleanLine r =
     (if startsWith ''EFFECT_ADD:'' cleanLine
      then (let parts = partsAfter ''EFFECT_ADD:'' cleanLine;
                name = firstPartAfter ''EFFECT_ADD:'' cleanLine
            in if toUpperCase name = ''NONE'' then (r, True)
               else (r\<lparr>new_effects :=
                         Some (listOr (new_effects r)
                               @ [\<lparr>eff_id = ids (length (listOr (new_effects r))), eff_name = name,
                                   eff_description = name,
                                   eff_type = strOr (nthOpt parts 1) ''debuff'',
                                   eff_duration = numOr (parseIntOpt (nthOpt parts 2)) 3,
                                   eff_statModifiers = None,
                                   eff_blocksHeroicActions = None\<rparr>])\<rparr>, False))
      else (r, False))"

definition thenStep ::
  "AIStoryResponse \<times> bool \<Rightarrow> (AIStoryResponse \<Rightarrow> AIStoryResponse \<times> bool) \<Rightarrow> AIStoryResponse \<times> bool" where
  "thenStep rb f = (if snd rb then rb else f (fst rb))"

definition updateLine :: "(nat \<Rightarrow> string) \<Rightarrow> AIStoryResponse \<Rightarrow> string \<Rightarrow> AIStoryResponse" where
  "updateLine ids r line =
     (let cleanLine = trim line
      in if cleanLine = [] then r
         else fst (thenStep (thenStep (thenStep (thenStep
                     (itemAddStep cleanLine (questStep cleanLine (statusStep cleanLine (hpStep cleanLine r))))
                     (itemRemoveStep cleanLine)) (equipStep cleanLine)) (unequipStep cleanLine))
                     (effectAddStep ids cleanLine)))"

definition parseUpdates :: "(nat \<Rightarrow> string) \<Rightarrow> string list \<Rightarrow> AIStoryResponse \<Rightarrow> AIStoryResponse" where
  "parseUpdates ids lines r = foldl (updateLine ids) r lines"

text \<open>
  The lines of the section \<^verbatim>\<open>ACTION_RESULT\<close>: each is split at \<^verbatim>\<open>:\<close> into a key and a
  value; the value is missing when the line has no colon. \<^verbatim>\<open>parseInt\<close> of a missing value
  is \<^verbatim>\<open>NaN\<close>, but \<^verbatim>\<open>val.toLowerCase()\<close> of a missing value raises a \<^verbatim>\<open>TypeError\<close>.
\<close>

datatype jsError = TypeError

record PartialResult =
  pr_stat :: "string option"
  pr_difficulty :: "number option"
  pr_base_roll :: "number option"
  pr_total :: "number option"
  pr_is_success :: "bool option"

definition actionLine :: "PartialResult \<Rightarrow> string \<Rightarrow> jsError + PartialResult" where
  "actionLine result line =
     (let sp = splitOn (CHR '':'') line;
          parts = map trim (fst sp # snd sp);
          key = trim (fst sp);
          val = nthOpt parts 1;
          r1 = (if key = ''STAT'' then result\<lparr>pr_stat := val\<rparr> else result);
          r2 = (if key = ''DC'' then r1\<lparr>pr_difficulty := Some (parseIntOpt val)\<rparr> else r1);
          r3 = (if key = ''BASE'' then r2\<lparr>pr_base_roll := Some (parseIntOpt val)\<rparr> else r2);
          r4 = (if key = ''TOTAL'' then r3\<lparr>pr_total := Some (parseIntOpt val)\<rparr> else r3)
      in if key = ''SUCCESS''
         then (case val of
                 None \<Rightarrow> Inl TypeError
               | Some v \<Rightarrow> Inr (r4\<lparr>pr_is_success := Some (toLowerCase v = ''true'')\<rparr>))
         else Inr r4)"

fun actionLines :: "PartialResult \<Rightarrow> string list \<Rightarrow> jsError + PartialResult" where
  "actionLines result [] = Inr result"
| "actionLines result (line # lines) =
     (case actionLine result line of
        Inl e \<Rightarrow> Inl e
      | Inr result1 \<Rightarrow> actionLines result1 lines)"

definition emptyResult :: PartialResult where
  "emptyResult = \<lparr>pr_stat = None, pr_difficulty = None, pr_base_roll = None, pr_total = None,
                   pr_is_success = None\<rparr>"

text \<open>
  The sections: the matches of
  \<^verbatim>\<open>/###\s*([A-Z_]+)[ \t]*(?:\r?\n|\r)([\s\S]*?)(?=(?:###\s*[A-Z_]+)|$)/g\<close>
  from left to right. \<open>matchHeader\<close> matches the part before the body at the start of
  a string and returns the name and what follows the line break; \<open>isHeaderAt\<close> is the
  lookahead; \<open>splitBody\<close> gives the shortest body the lookahead (or the end of the text)
  follows, and the rest, where the search goes on.
\<close>

definition isHeaderAt :: "string \<Rightarrow> bool" where
  "isHeaderAt s =
     (startsWith ''###'' s
      \<and> (case dropWhile isWs (drop 3 s) of [] \<Rightarrow> False | d # _ \<Rightarrow> isNameChar d))"

definition matchHeader :: "string \<Rightarrow> (string \<times> string) option" where
  "matchHeader s =
     (if startsWith ''###'' s
      then (let s1 = dropWhile isWs (drop 3 s);
                name = takeWhile isNameChar s1;
                s2 = dropWhile isBlank (dropWhile isNameChar s1)
            in if name = [] then None
               else if startsWith [CR, LF] s2 then Some (name, drop 2 s2)
               else if startsWith [LF] s2 then Some (name, drop 1 s2)
               else if startsWith [CR] s2 then Some (name, drop 1 s2)
               else None)
      else None)"

fun splitBody :: "string \<Rightarrow> string \<times> string" where
  "splitBody [] = ([], [])"
| "splitBody (c # cs) =
     (if isHeaderAt (c # cs) then ([], c # cs)
      else (case splitBody cs of (body, rest) \<Rightarrow> (c # body, rest)))"

lemma splitBody_length: "length (snd (splitBody s)) \<le> length s"
  by (induction s) (auto split: prod.splits)

lemma matchHeader_shorter: "matchHeader s = Some (name, rest) \<Longrightarrow> length rest < length s"
proof -
  assume a: "matchHeader s = Some (name, rest)"
  have le: "length (dropWhile P xs) \<le> length xs" for P and xs :: string
    by (rule length_dropWhile_le)
  define s2 where "s2 = dropWhile isBlank (dropWhile isNameChar (dropWhile isWs (drop 3 s)))"
  from a have st: "startsWith ''###'' s"
    by (auto simp: matchHeader_def split: if_splits)
  then have "take (length ''###'') s = ''###''" unfolding startsWith_def .
  then have "length (take (length ''###'') s) = length ''###''" by (rule arg_cong)
  then have "3 \<le> length s" by simp
  then have d: "length (drop 3 s) < length s" by simp
  have "length s2 \<le> length (dropWhile isNameChar (dropWhile isWs (drop 3 s)))"
    unfolding s2_def by (rule le)
  also have "\<dots> \<le> length (dropWhile isWs (drop 3 s))" by (rule le)
  also have "\<dots> \<le> length (drop 3 s)" by (rule le)
  finally have s2: "length s2 < length s" using d by simp
  from a st have "rest = drop 2 s2 \<or> rest = drop 1 s2"
    by (auto simp: matchHeader_def Let_def s2_def split: if_splits)
  with s2 show ?thesis by auto
qed

function sectionsScan :: "string \<Rightarrow> (string \<times> string) list" where
  "sectionsScan [] = []"
| "sectionsScan (c # cs) =
     (case matchHeader (c # cs) of
        Some (name, rest) \<Rightarrow>
          (trim name, trim (fst (splitBody rest))) # sectionsScan (snd (splitBody rest))
      | None \<Rightarrow> sectionsScan cs)"
  by pat_completeness auto
termination
proof (relation "measure length")
  fix c cs x name rest
  assume "matchHeader (c # cs) = Some x" and "(name, rest) = x"
  then have "length rest < length (c # cs)"
    by (auto dest: matchHeader_shorter)
  moreover have "length (snd (splitBody rest)) \<le> length rest"
    by (rule splitBody_length)
  ultimately show "(snd (splitBody rest), c # cs) \<in> measure length"
    by simp
qed simp_all

text \<open>\<^verbatim>\<open>sections[name]\<close>: the last section of a name wins.\<close>

definition sectionOf :: "string \<Rightarrow> string \<Rightarrow> string option" where
  "sectionOf text name = map_of (rev (sectionsScan text)) name"

text \<open>
  \<^verbatim>\<open>parseTextResponse\<close>, with the lines of the section \<^verbatim>\<open>UPDATES\<close> as a parameter of
  \<open>parseBody\<close> (no lines when the section is missing or empty). \<open>ids\<close> are the random
  ids of the effects.
\<close>

definition parseBody ::
  "(nat \<Rightarrow> string) \<Rightarrow> string \<Rightarrow> string option \<Rightarrow> string option \<Rightarrow> string list \<Rightarrow> string option
     \<Rightarrow> jsError + AIStoryResponse" where
  "parseBody ids text narrativeSec choicesSec updateLines actionSec =
     (let response0 = \<lparr>narrative = strOr narrativeSec text, choices = Some [],
                        inventory_added = None, inventory_removed = None,
                        equipment_update = None, quest_update = None, hp_change = Some 0,
                        game_status = Some Ongoing, ai_stats_update = None, new_effects = None,
                        ai_npcs_update = None, action_result = None\<rparr>;
          response1 = (if truthyStr choicesSec
                       then response0\<lparr>choices := Some (parseChoices (the choicesSec))\<rparr>
                       else response0);
          response2 = parseUpdates ids updateLines response1
      in if truthyStr actionSec
         then (case actionLines emptyResult (splitLines (the actionSec)) of
                 Inl e \<Rightarrow> Inl e
               | Inr result \<Rightarrow>
                   Inr (if truthyStr (pr_stat result)
                        then response2\<lparr>action_result :=
                               Some \<lparr>ar_stat = the (pr_stat result),
                                     ar_difficulty = pr_difficulty result,
                                     ar_base_roll = pr_base_roll result,
                                     ar_total = pr_total result,
                                     ar_is_success = pr_is_success result\<rparr>\<rparr>
                        else response2))
         else Inr response2)"

definition updateLinesOf :: "string \<Rightarrow> string list" where
  "updateLinesOf text =
     (if truthyStr (sectionOf text ''UPDATES'') then splitLines (the (sectionOf text ''UPDATES''))
      else [])"

definition parseTextResponse :: "(nat \<Rightarrow> string) \<Rightarrow> string \<Rightarrow> jsError + AIStoryResponse" where
  "parseTextResponse ids text =
     parseBody ids text (sectionOf text ''NARRATIVE'') (sectionOf text ''CHOICES'')
       (updateLinesOf text) (sectionOf text ''ACTION_RESULT'')"

text \<open>
  The lines the parser skips: one of the five keys with the name \<^verbatim>\<open>NONE\<close> in any case
  of letters. And two responses that agree in narrative and choices.
\<close>

definition noneDirective :: "string \<Rightarrow> bool" where
  "noneDirective line =
     (let cleanLine = trim line
      in (startsWith ''ITEM_ADD:'' cleanLine
            \<and> toUpperCase (firstPartAfter ''ITEM_ADD:'' cleanLine) = ''NONE'')
         \<or> (startsWith ''ITEM_REMOVE:'' cleanLine
            \<and> toUpperCase (trim (removeFirst ''ITEM_REMOVE:'' cleanLine)) = ''NONE'')
         \<or> (startsWith ''EQUIP:'' cleanLine
            \<and> toUpperCase (trim (removeFirst ''EQUIP:'' cleanLine)) = ''NONE'')
         \<or> (startsWith ''UNEQUIP:'' cleanLine
            \<and> toUpperCase (trim (removeFirst ''UNEQUIP:'' cleanLine)) = ''NONE'')
         \<or> (startsWith ''EFFECT_ADD:'' cleanLine
            \<and> toUpperCase (firstPartAfter ''EFFECT_ADD:'' cleanLine) = ''NONE''))"

definition sameText :: "AIStoryResponse \<Rightarrow> AIStoryResponse \<Rightarrow> bool" where
  "sameText r r' = (narrative r' = narrative r \<and> choices r' = choices r)"

section \<open>The initial state and sample inputs\<close>

definition DEFAULT_STATS :: CharacterStats where
  "DEFAULT_STATS = (\<lambda>_. 10)"

text \<open>The initial value of the state of \<^verbatim>\<open>App\<close>.\<close>

definition initialGameState :: GameState where
  "initialGameState =
     \<lparr>inventory = [], equipped = \<lparr>weapon = None, armor = None, accessory = None\<rparr>,
      currentQuest = [], npcs = [], history = [], isLoading = False, isRolling = False,
      hp = BASE_HP, maxHp = BASE_HP, hpHistory = [BASE_HP], gameStatus = Ongoing,
      phase = Menu, genre = ''Fantasy'', stats = DEFAULT_STATS,
      statExperience =
        [S_STR \<mapsto> Num 0, S_DEX \<mapsto> Num 0, S_CON \<mapsto> Num 0, S_INT \<mapsto> Num 0,
         S_CHA \<mapsto> Num 0, S_PER \<mapsto> Num 0, S_LUK \<mapsto> Num 0],
      activeEffects = [], startingStats = DEFAULT_STATS,
      finalSummary = None, finalStoryboard = None, customChoicesRemaining = 3,
      mainStoryArc = None\<rparr>"

definition initialAppState :: AppState where
  "initialAppState =
     \<lparr>gameState = initialGameState, requestIdRef = 0, lastTurnParams = None,
      showRetry = False, currentChoices = [], pendingChoice = None, pendingRoll = None,
      enableDiceRolls = True\<rparr>"

text \<open>
  \<^verbatim>\<open>handleNewGame\<close> and \<^verbatim>\<open>handleRestart\<close>. The first writes the seven counters, as the
  initial state does. The second replaces the whole state by an object whose
  \<^verbatim>\<open>statExperience\<close> has no counter for PER and LUK; it leaves the request counter as it
  is, so the response of a request that is under way is still applied afterwards.
\<close>

definition handleNewGame :: "GameState \<Rightarrow> GameState" where
  "handleNewGame prev =
     prev\<lparr>phase := Setup_genre, history := [], inventory := [], npcs := [],
          equipped := \<lparr>weapon = None, armor = None, accessory = None\<rparr>,
          hpHistory := [BASE_HP],
          statExperience :=
            [S_STR \<mapsto> Num 0, S_DEX \<mapsto> Num 0, S_CON \<mapsto> Num 0, S_INT \<mapsto> Num 0,
             S_CHA \<mapsto> Num 0, S_PER \<mapsto> Num 0, S_LUK \<mapsto> Num 0],
          activeEffects := [], customChoicesRemaining := 3,
          finalSummary := None, finalStoryboard := None\<rparr>"

definition handleRestart :: "AppState \<Rightarrow> AppState" where
  "handleRestart a =
     a\<lparr>gameState :=
         \<lparr>inventory = [], equipped = \<lparr>weapon = None, armor = None, accessory = None\<rparr>,
          currentQuest = [], npcs = [], history = [], isLoading = False, isRolling = False,
          hp = BASE_HP, maxHp = BASE_HP, hpHistory = [BASE_HP], gameStatus = Ongoing,
          phase = Menu, genre = ''Fantasy'', stats = DEFAULT_STATS,
          statExperience =
            [S_STR \<mapsto> Num 0, S_DEX \<mapsto> Num 0, S_CON \<mapsto> Num 0, S_INT \<mapsto> Num 0,
             S_CHA \<mapsto> Num 0],
          activeEffects = [], startingStats = DEFAULT_STATS,
          finalSummary = None, finalStoryboard = None, customChoicesRemaining = 3,
          mainStoryArc = None\<rparr>,
       currentChoices := []\<rparr>"

text \<open>
  The response with nothing but a narrative: the defaults of the text parser
  (no choices, status ongoing, HP change zero) and every other field missing.
\<close>

definition plainResponse :: "string \<Rightarrow> AIStoryResponse" where
  "plainResponse text =
     \<lparr>narrative = text, choices = Some [], inventory_added = None, inventory_removed = None,
      equipment_update = None, quest_update = None, hp_change = Some 0,
      game_status = Some Ongoing, ai_stats_update = None, new_effects = None,
      ai_npcs_update = None, action_result = None\<rparr>"

text \<open>
  A sample environment for the concrete runs: every item is a miscellaneous one without
  bonuses, the ids are numbered, no stat is inferred, and every random draw is zero.
\<close>

definition sampleId :: "string \<Rightarrow> nat \<Rightarrow> string" where
  "sampleId p k = p @ replicate (Suc k) (CHR ''x'')"

definition sampleEnv :: Env where
  "sampleEnv =
     \<lparr>classify = (\<lambda>k name. (Misc, None)), newItemId = sampleId ''item'',
      newEffectId = sampleId ''eff'', newNpcId = sampleId ''npc'', now = ''1700000000000'',
      inferStatFromText = (\<lambda>t. None), randomFive = (\<lambda>k. 0)\<rparr>"

text \<open>
  The id discipline of a state: the ids of the equipped items are not empty, and none
  of the given items has the id of an equipped item.
\<close>

definition equippedIdsTruthy :: "GameState \<Rightarrow> bool" where
  "equippedIdsTruthy s = list_all (\<lambda>x. item_id x \<noteq> []) (slotList (equipped s))"

definition idsApart :: "InventoryItem list \<Rightarrow> GameState \<Rightarrow> bool" where
  "idsApart items s = list_all (\<lambda>i. item_id i \<notin> set (equippedIdsOf (equipped s))) items"

definition sampleItem :: "string \<Rightarrow> string \<Rightarrow> InventoryItem" where
  "sampleItem ident name =
     \<lparr>item_id = ident, item_name = name, item_type = Misc, item_description = None,
      item_bonuses = None\<rparr>"

definition eightItems :: "InventoryItem list" where
  "eightItems =
     [sampleItem ''a1'' ''Rope'', sampleItem ''a2'' ''Torch'', sampleItem ''a3'' ''Map'',
      sampleItem ''a4'' ''Flask'', sampleItem ''a5'' ''Coin'', sampleItem ''a6'' ''Key'',
      sampleItem ''a7'' ''Chalk'', sampleItem ''a8'' ''Lens'']"

definition addTwo :: AIStoryResponse where
  "addTwo =
     (plainResponse ''You find two things.'')
       \<lparr>inventory_added :=
          Some [\<lparr>ai_name = ''Feather'', ai_type = ''misc'', ai_description = None,
                  ai_bonuses = None\<rparr>,
                \<lparr>ai_name = ''Pebble'', ai_type = ''misc'', ai_description = None,
                  ai_bonuses = None\<rparr>]\<rparr>"

text \<open>
  Eight items in the bag, nothing equipped; and the same bag with the first of the
  eight items also standing in the weapon slot.
\<close>

definition fullBagState :: GameState where
  "fullBagState = initialGameState\<lparr>inventory := eightItems, phase := Playing\<rparr>"

definition sharedIdState :: GameState where
  "sharedIdState =
     fullBagState\<lparr>equipped :=
       \<lparr>weapon = Some (sampleItem ''a1'' ''Rope''), armor = None, accessory = None\<rparr>\<rparr>"

text \<open>The full bag again, with a weapon equipped whose id is the empty string.\<close>

definition emptyIdState :: GameState where
  "emptyIdState =
     fullBagState\<lparr>equipped :=
       \<lparr>weapon = Some (sampleItem [] ''Sword''), armor = None, accessory = None\<rparr>\<rparr>"

text \<open>
  A delta without any change, and the states called valid: HP within its bounds, at
  most eight items in the bag, and the id discipline above.
\<close>

definition noneOrEmpty :: "'a list option \<Rightarrow> bool" where
  "noneOrEmpty xs = (case xs of None \<Rightarrow> True | Some ys \<Rightarrow> ys = [])"

definition emptyDelta :: "AIStoryResponse \<Rightarrow> bool" where
  "emptyDelta r =
     (hpChangeOf r = 0 \<and> noneOrEmpty (inventory_added r) \<and> noneOrEmpty (inventory_removed r)
      \<and> \<not> truthyStr (quest_update r)
      \<and> (case game_status r of None \<Rightarrow> True | Some g \<Rightarrow> g = Ongoing)
      \<and> (case ai_stats_update r of None \<Rightarrow> True
          | Some su \<Rightarrow> list_all (\<lambda>key. su key = None) allStats)
      \<and> noneOrEmpty (new_effects r)
      \<and> npcAddOf r = [] \<and> npcUpdateOf r = [] \<and> npcRemoveOf r = []
      \<and> action_result r = None)"

definition validState :: "GameState \<Rightarrow> bool" where
  "validState s =
     (0 \<le> hp s \<and> hp s \<le> maxHp s \<and> length (inventory s) \<le> 8
      \<and> equippedIdsTruthy s \<and> idsApart (inventory s) s)"

definition wonState :: GameState where
  "wonState = initialGameState\<lparr>gameStatus := Won, phase := Game_over\<rparr>"

text \<open>
  A run of the handlers: the first turn is issued and stopped, a heroic action is
  issued, its response carries the status won, then a retry is issued and its response
  carries the status ongoing.
\<close>

definition wonResponse :: AIStoryResponse where
  "wonResponse = (plainResponse ''The dragon falls.'')\<lparr>game_status := Some Won\<rparr>"

definition runStopped :: AppState where
  "runStopped =
     handleStopRequest
       (snd (processTurn ''1700000000001'' ''Begin the adventure.'' None None None None
               initialAppState))"

definition runHeroic :: "nat option \<times> AppState" where
  "runHeroic = handleCustomChoiceSubmit ''1700000000002'' 17 ''I charge the dragon'' None runStopped"

definition runWon :: AppState where
  "runWon = responseArrives sampleEnv (the (fst runHeroic)) wonResponse (snd runHeroic)"

definition runRetried :: "nat option \<times> AppState" where
  "runRetried = handleRetryRequest runWon"

definition runReverted :: AppState where
  "runReverted =
     responseArrives sampleEnv (the (fst runRetried)) (plainResponse ''The story goes on.'')
       (snd runRetried)"

text \<open>Sample states and inputs of the lifecycle and of the experience.\<close>

definition requestA :: "nat \<times> AppState" where
  "requestA = processTurn ''1700000000001'' ''Begin the adventure.'' None None None None initialAppState"

definition requestB :: "nat \<times> AppState" where
  "requestB = processTurn ''1700000000002'' ''Look around'' None None None None
                (handleStopRequest (snd requestA))"

definition exhaustedApp :: AppState where
  "exhaustedApp = initialAppState\<lparr>gameState := initialGameState\<lparr>customChoicesRemaining := 0\<rparr>\<rparr>"

definition stunned :: StatusEffect where
  "stunned = \<lparr>eff_id = ''e1'', eff_name = ''Stunned'', eff_description = ''Stunned'',
               eff_type = ''debuff'', eff_duration = 2, eff_statModifiers = None,
               eff_blocksHeroicActions = Some True\<rparr>"

definition stunnedApp :: AppState where
  "stunnedApp = initialAppState\<lparr>gameState := initialGameState\<lparr>activeEffects := [stunned]\<rparr>\<rparr>"

definition strChoice :: ChoiceData where
  "strChoice = \<lparr>ch_text = ''*Force* the door'', ch_type = Some ''STR'',
                 ch_difficulty = Some (Num 12)\<rparr>"

definition perChoice :: ChoiceData where
  "perChoice = \<lparr>ch_text = ''Search the room'', ch_type = Some ''PER'',
                 ch_difficulty = Some (Num 12)\<rparr>"

text \<open>A response with a narrative and one choice on offer.\<close>

definition offering :: "string \<Rightarrow> ChoiceData \<Rightarrow> AIStoryResponse" where
  "offering text choice = (plainResponse text)\<lparr>choices := Some [choice]\<rparr>"

text \<open>
  Three successful checks of Strength from the first scene on, each one a click on the
  choice on offer whose state update React has queued, its dice animation and its
  response; \<open>thirdClick\<close> is the last of the three clicks.
\<close>

definition firstScene :: AppState where
  "firstScene =
     responseArrives sampleEnv (fst requestA) (offering ''You stand before a door.'' strChoice)
       (snd requestA)"

definition twoStrongApp :: AppState where
  "twoStrongApp =
     run sampleEnv
       [ChoiceClick False ''1700000000002'' 15 strChoice, RollComplete,
        ResponseArrives 2 (offering ''The door groans.'' strChoice),
        ChoiceClick False ''1700000000003'' 15 strChoice, RollComplete,
        ResponseArrives 3 (offering ''The hinges bend.'' strChoice)]
       firstScene"

definition thirdClick :: "nat option \<times> AppState" where
  "thirdClick = handleChoiceClick False ''1700000000004'' 15 strChoice twoStrongApp"

text \<open>
  The game is reset while the first request is under way; its response arrives
  afterwards and a check of Perception succeeds.
\<close>

definition restartedApp :: AppState where
  "restartedApp =
     responseArrives sampleEnv (fst requestA) (offering ''You stand in a dark room.'' perChoice)
       (handleRestart (snd requestA))"

definition perClick :: "nat option \<times> AppState" where
  "perClick = handleChoiceClick False ''1700000000002'' 15 perChoice restartedApp"

definition dexAction :: AIStoryResponse where
  "dexAction =
     (plainResponse ''You vault the wall.'')
       \<lparr>action_result :=
          Some \<lparr>ar_stat = ''DEX'', ar_difficulty = Some (Num 14), ar_base_roll = Some (Num 16),
                ar_total = Some (Num 16), ar_is_success = Some True\<rparr>\<rparr>"

text \<open>
  An amulet that gives two points of Constitution, in the bag of the initial state and
  then equipped; and a state with 35 of 100 HP under an effect that takes two points of
  Constitution.
\<close>

definition amulet :: InventoryItem where
  "amulet =
     \<lparr>item_id = ''am1'', item_name = ''Amulet of Vitality'', item_type = Accessory,
      item_description = None, item_bonuses = Some (Map.empty(S_CON \<mapsto> 2))\<rparr>"

definition amuletEquipped :: GameState where
  "amuletEquipped = handleEquip amulet (initialGameState\<lparr>inventory := [amulet]\<rparr>)"

definition weakened :: StatusEffect where
  "weakened =
     \<lparr>eff_id = ''e2'', eff_name = ''Weakened'', eff_description = ''Weakened'',
      eff_type = ''debuff'', eff_duration = 3,
      eff_statModifiers = Some (Map.empty(S_CON \<mapsto> - 2)),
      eff_blocksHeroicActions = None\<rparr>"

definition weakenedState :: GameState where
  "weakenedState = initialGameState\<lparr>hp := 35, activeEffects := [weakened]\<rparr>"

section \<open>HP bounds and the forced loss\<close>

definition clamp :: "int \<Rightarrow> int \<Rightarrow> int \<Rightarrow> int" where
  "clamp x lo hi = max lo (min hi x)"

lemma hp_applyAIResponse: "hp (applyAIResponse env r prev) = newHpOf r prev"
  by (simp add: applyAIResponse_def Let_def)

lemma gameStatus_applyAIResponse: "gameStatus (applyAIResponse env r prev) = statusOf r prev"
  by (simp add: applyAIResponse_def Let_def)

lemma newHpOf_clamp: "newHpOf r prev = clamp (hp prev + hpChangeOf r) 0 (maxHp prev)"
  by (simp add: newHpOf_def clamp_def Let_def min_def max_def)

lemma statusOf_lost: "newHpOf r prev = 0 \<Longrightarrow> statusOf r prev = Lost"
  by (simp add: newHpOf_def statusOf_def Let_def split: if_splits)

text \<open>
  C1. For every state and every response, the new HP is
  \<open>clamp (hp + hp_change) 0 maxHp\<close>, and whenever the new HP is zero the new status
  is lost, whatever status the response carries.
\<close>

theorem C1_hp_clamped_and_zero_is_lost:
  "hp (applyAIResponse env r prev) = clamp (hp prev + hpChangeOf r) 0 (maxHp prev)
   \<and> (hp (applyAIResponse env r prev) = 0 \<longrightarrow> gameStatus (applyAIResponse env r prev) = Lost)"
  by (simp add: hp_applyAIResponse gameStatus_applyAIResponse newHpOf_clamp [symmetric]
      statusOf_lost)

text \<open>
  The scenario of C1: a change of \<open>-150\<close> against 40 of 100 HP, in a response whose status
  is ongoing, gives HP zero and the status lost.
\<close>

theorem C1_scenario_minus_150:
  "hp (applyAIResponse sampleEnv ((plainResponse ''ouch'')\<lparr>hp_change := Some (- 150)\<rparr>)
         (initialGameState\<lparr>hp := 40\<rparr>)) = 0
   \<and> gameStatus (applyAIResponse sampleEnv ((plainResponse ''ouch'')\<lparr>hp_change := Some (- 150)\<rparr>)
         (initialGameState\<lparr>hp := 40\<rparr>)) = Lost
   \<and> game_status ((plainResponse ''ouch'')\<lparr>hp_change := Some (- 150)\<rparr>) = Some Ongoing
   \<and> maxHp (initialGameState\<lparr>hp := 40\<rparr>) = 100"
  using C1_hp_clamped_and_zero_is_lost
    [of sampleEnv "(plainResponse ''ouch'')\<lparr>hp_change := Some (- 150)\<rparr>"
        "initialGameState\<lparr>hp := 40\<rparr>"]
  by (simp add: clamp_def hpChangeOf_def plainResponse_def initialGameState_def BASE_HP_def)

section \<open>The inventory cap\<close>

lemma returnOld_still_equipped:
  "list_all (\<lambda>x. item_id x \<in> set ids) olds \<Longrightarrow> returnOld ids removed olds bag = bag"
  by (induction olds arbitrary: bag) (simp_all add: Let_def)

lemma slotList_ids_equipped:
  "equippedIdsTruthy s \<Longrightarrow>
   list_all (\<lambda>x. item_id x \<in> set (equippedIdsOf (equipped s))) (slotList (equipped s))"
  by (simp add: equippedIdsTruthy_def equippedIdsOf_def list_all_iff)

lemma take_8_or_all: "(if length xs > 8 then take 8 xs else xs) = take 8 xs"
  by simp

lemma filter_idsApart:
  "idsApart items s \<Longrightarrow>
   filter (\<lambda>i. item_id i \<notin> set (equippedIdsOf (equipped s))) (take n (filter P items))
   = take n (filter P items)"
proof -
  assume "idsApart items s"
  then have "\<forall>i \<in> set (take n (filter P items)). item_id i \<notin> set (equippedIdsOf (equipped s))"
    by (auto simp: idsApart_def list_all_iff dest: in_set_takeD)
  then show ?thesis by simp
qed

lemma finalInventoryOf_capped:
  assumes "equippedIdsTruthy prev" and "idsApart (inventory prev @ newItemsOf env r) prev"
  shows "finalInventoryOf env r prev =
         take 8 (filter (\<lambda>item. toLowerCase (item_name item) \<notin> set (removedNamesOf r))
                   (inventory prev @ newItemsOf env r))"
proof -
  let ?kept = "filter (\<lambda>item. toLowerCase (item_name item) \<notin> set (removedNamesOf r))
                 (inventory prev @ newItemsOf env r)"
  let ?ids = "equippedIdsOf (equipped prev)"
  have "finalInventoryOf env r prev =
        returnOld ?ids (removedNamesOf r) (slotList (equipped prev))
          (filter (\<lambda>i. item_id i \<notin> set ?ids) (take 8 ?kept))"
    unfolding finalInventoryOf_def Let_def take_8_or_all ..
  also have "\<dots> = filter (\<lambda>i. item_id i \<notin> set ?ids) (take 8 ?kept)"
    using assms(1) by (rule returnOld_still_equipped [OF slotList_ids_equipped])
  also have "\<dots> = take 8 ?kept"
    using assms(2) by (rule filter_idsApart)
  finally show ?thesis .
qed

lemma inventory_applyAIResponse:
  "inventory (applyAIResponse env r prev) = finalInventoryOf env r prev"
  by (simp add: applyAIResponse_def Let_def)

text \<open>
  C3 (amended). In a state whose equipped items have non-empty ids, and where no item of
  the bag and no new item has the id of an equipped item, the new inventory is the first
  eight of: the old items followed by the new ones, without the removed ones. In
  particular a bag of eight items stays as it is when items are added and none removed.
\<close>

theorem C3_inventory_first_eight_in_order:
  assumes "equippedIdsTruthy prev" and "idsApart (inventory prev @ newItemsOf env r) prev"
  shows "inventory (applyAIResponse env r prev) =
           take 8 (filter (\<lambda>item. toLowerCase (item_name item) \<notin> set (removedNamesOf r))
                     (inventory prev @ newItemsOf env r))
         \<and> (length (inventory prev) = 8 \<and> removedNamesOf r = []
              \<longrightarrow> inventory (applyAIResponse env r prev) = inventory prev)"
  using finalInventoryOf_capped [OF assms] by (simp add: inventory_applyAIResponse)

theorem C3_scenario_full_bag:
  "equippedIdsTruthy fullBagState
   \<and> idsApart (inventory fullBagState @ newItemsOf sampleEnv addTwo) fullBagState
   \<and> length (inventory fullBagState) = 8
   \<and> length (newItemsOf sampleEnv addTwo) = 2
   \<and> removedNamesOf addTwo = []
   \<and> inventory (applyAIResponse sampleEnv addTwo fullBagState) = inventory fullBagState"
proof -
  have a: "equippedIdsTruthy fullBagState"
    by code_simp
  have b: "idsApart (inventory fullBagState @ newItemsOf sampleEnv addTwo) fullBagState"
    by code_simp
  have c: "length (inventory fullBagState) = 8"
    by code_simp
  have d: "length (newItemsOf sampleEnv addTwo) = 2"
    by code_simp
  have e: "removedNamesOf addTwo = []"
    by code_simp
  from C3_inventory_first_eight_in_order [OF a b] c e
  have "inventory (applyAIResponse sampleEnv addTwo fullBagState) = inventory fullBagState"
    by blast
  with a b c d e show ?thesis by blast
qed

text \<open>
  C3 as stated fails in a state where an item of the bag has the id of the equipped
  weapon: the bag holds eight items, two are added and none removed, and the new
  inventory is not the original eight, since the reconciler drops from the bag every
  item whose id is equipped. It also fails where the equipped weapon has the empty id:
  the empty id is dropped from the list of equipped ids, the weapon counts as no longer
  equipped and is put into the bag as a ninth item.
\<close>

theorem C3_counterexample_shared_id:
  "length (inventory sharedIdState) = 8
   \<and> length (newItemsOf sampleEnv addTwo) = 2
   \<and> removedNamesOf addTwo = []
   \<and> map item_id (inventory (applyAIResponse sampleEnv addTwo sharedIdState))
       = [''a2'', ''a3'', ''a4'', ''a5'', ''a6'', ''a7'', ''a8'']
   \<and> inventory (applyAIResponse sampleEnv addTwo sharedIdState) \<noteq> inventory sharedIdState
   \<and> length (inventory emptyIdState) = 8
   \<and> map item_id (inventory (applyAIResponse sampleEnv addTwo emptyIdState))
       = [''a1'', ''a2'', ''a3'', ''a4'', ''a5'', ''a6'', ''a7'', ''a8'', []]
   \<and> inventory (applyAIResponse sampleEnv addTwo emptyIdState) \<noteq> inventory emptyIdState"
proof -
  have m: "map item_id (inventory (applyAIResponse sampleEnv addTwo sharedIdState))
           = [''a2'', ''a3'', ''a4'', ''a5'', ''a6'', ''a7'', ''a8'']"
    by code_simp
  have c: "length (inventory sharedIdState) = 8"
    by code_simp
  have "length (map item_id (inventory (applyAIResponse sampleEnv addTwo sharedIdState))) = 7"
    by (simp only: m) simp
  then have n: "inventory (applyAIResponse sampleEnv addTwo sharedIdState) \<noteq> inventory sharedIdState"
    using c by auto
  have d: "length (newItemsOf sampleEnv addTwo) = 2"
    by code_simp
  have e: "removedNamesOf addTwo = []"
    by code_simp
  have m': "map item_id (inventory (applyAIResponse sampleEnv addTwo emptyIdState))
            = [''a1'', ''a2'', ''a3'', ''a4'', ''a5'', ''a6'', ''a7'', ''a8'', []]"
    by code_simp
  have c': "length (inventory emptyIdState) = 8"
    by code_simp
  have "length (map item_id (inventory (applyAIResponse sampleEnv addTwo emptyIdState))) = 9"
    by (simp only: m') simp
  then have n': "inventory (applyAIResponse sampleEnv addTwo emptyIdState) \<noteq> inventory emptyIdState"
    using c' by auto
  from c d e m n c' m' n' show ?thesis by blast
qed

section \<open>The empty delta\<close>

lemma allStats_complete: "list_all P allStats \<Longrightarrow> P key"
  by (cases key) (simp_all add: allStats_def)

lemma noneOrEmpty_cases: "noneOrEmpty xs \<Longrightarrow> (case xs of None \<Rightarrow> [] | Some ys \<Rightarrow> ys) = []"
  by (simp add: noneOrEmpty_def split: option.splits)

lemma emptyDelta_newItems: "emptyDelta r \<Longrightarrow> newItemsOf env r = []"
  by (simp add: emptyDelta_def newItemsOf_def noneOrEmpty_cases)

lemma emptyDelta_removed: "emptyDelta r \<Longrightarrow> removedNamesOf r = []"
  by (simp add: emptyDelta_def removedNamesOf_def noneOrEmpty_cases)

lemma emptyDelta_effects: "emptyDelta r \<Longrightarrow> brandNewEffectsOf env r = []"
  by (simp add: emptyDelta_def brandNewEffectsOf_def noneOrEmpty_cases)

lemma emptyDelta_stats:
  assumes "emptyDelta r"
  shows "statsAfterUpdate r st = st"
proof (cases "ai_stats_update r")
  case None
  then show ?thesis by (simp add: statsAfterUpdate_def)
next
  case (Some su)
  with assms have "list_all (\<lambda>key. su key = None) allStats"
    by (simp add: emptyDelta_def)
  then have "su key = None" for key
    by (rule allStats_complete)
  with Some show ?thesis by (simp add: statsAfterUpdate_def)
qed

lemma emptyDelta_action:
  "emptyDelta r \<Longrightarrow> afterActionResult r st ex = (st, ex, None)"
  by (simp add: emptyDelta_def afterActionResult_def)

lemma emptyDelta_npcs: "emptyDelta r \<Longrightarrow> finalNPCsOf env r prev = npcs prev"
  by (simp add: emptyDelta_def finalNPCsOf_def)

lemma clearRemoved_nothing: "clearRemoved [] slot = slot"
  by (simp add: clearRemoved_def split: option.splits)

lemma emptyDelta_equipped: "emptyDelta r \<Longrightarrow> finalEquippedOf r prev = equipped prev"
  by (simp add: finalEquippedOf_def emptyDelta_removed clearRemoved_nothing Let_def)

lemma emptyDelta_inventory:
  assumes "emptyDelta r" and "validState prev"
  shows "finalInventoryOf env r prev = inventory prev"
proof -
  have "idsApart (inventory prev @ newItemsOf env r) prev"
    using assms by (simp add: emptyDelta_newItems validState_def)
  moreover have "equippedIdsTruthy prev"
    using assms(2) by (simp add: validState_def)
  ultimately have "finalInventoryOf env r prev =
      take 8 (filter (\<lambda>item. toLowerCase (item_name item) \<notin> set (removedNamesOf r))
                     (inventory prev @ newItemsOf env r))"
    by (rule finalInventoryOf_capped [rotated])
  then show ?thesis
    using assms by (simp add: emptyDelta_newItems emptyDelta_removed validState_def)
qed

lemma emptyDelta_hp:
  assumes "emptyDelta r" and "validState prev"
  shows "newHpOf r prev = hp prev"
  using assms by (auto simp: emptyDelta_def validState_def newHpOf_def Let_def)

lemma emptyDelta_status:
  assumes "emptyDelta r" and "validState prev"
  shows "statusOf r prev = (if hp prev = 0 then Lost else Ongoing)"
  using assms by (auto simp: emptyDelta_def validState_def statusOf_def Let_def split: option.splits)

lemma emptyDelta_quest: "emptyDelta r \<Longrightarrow>
   (if truthyStr (quest_update r) then the (quest_update r) else currentQuest prev) = currentQuest prev"
  by (simp add: emptyDelta_def)

text \<open>
  C4 (amended). Reconciling an empty delta in a valid state leaves stats, experience,
  inventory, equipped gear, HP, maximal HP, active effects, NPCs and quest as they are:
  the new state is the old one with the turn appended to the history, the HP appended
  to the HP history, the loading flag cleared, and status and phase set from the HP
  alone (lost at zero HP, ongoing otherwise). So the status is kept when the state is
  ongoing with positive HP.
\<close>

theorem C4_empty_delta_keeps_fields:
  assumes "validState prev" and "emptyDelta r"
  shows "applyAIResponse env r prev =
           prev\<lparr>history := history prev @ [aiTurnOf env r prev], isLoading := False,
                hpHistory := hpHistory prev @ [hp prev],
                gameStatus := (if hp prev = 0 then Lost else Ongoing),
                phase := (if hp prev = 0 then Game_over else Playing)\<rparr>
         \<and> (gameStatus prev = Ongoing \<and> 0 < hp prev
              \<longrightarrow> gameStatus (applyAIResponse env r prev) = gameStatus prev)"
  using assms
  by (simp add: applyAIResponse_def Let_def emptyDelta_inventory emptyDelta_equipped
      emptyDelta_effects emptyDelta_quest emptyDelta_npcs emptyDelta_hp emptyDelta_status
      emptyDelta_stats emptyDelta_action)

text \<open>The empty delta in the state with a full bag.\<close>

theorem C4_scenario_full_bag:
  "validState fullBagState \<and> emptyDelta (plainResponse ''Nothing happens.'')
   \<and> gameStatus fullBagState = Ongoing \<and> 0 < hp fullBagState
   \<and> inventory (applyAIResponse sampleEnv (plainResponse ''Nothing happens.'') fullBagState)
        = inventory fullBagState
   \<and> hp (applyAIResponse sampleEnv (plainResponse ''Nothing happens.'') fullBagState)
        = hp fullBagState
   \<and> gameStatus (applyAIResponse sampleEnv (plainResponse ''Nothing happens.'') fullBagState)
        = gameStatus fullBagState
   \<and> length (history (applyAIResponse sampleEnv (plainResponse ''Nothing happens.'') fullBagState))
        = Suc (length (history fullBagState))"
proof -
  have v: "validState fullBagState" by code_simp
  have e: "emptyDelta (plainResponse ''Nothing happens.'')" by code_simp
  have g: "gameStatus fullBagState = Ongoing \<and> 0 < hp fullBagState" by code_simp
  note t = C4_empty_delta_keeps_fields [OF v e, of sampleEnv]
  from t g have s: "gameStatus (applyAIResponse sampleEnv (plainResponse ''Nothing happens.'') fullBagState)
        = gameStatus fullBagState" by blast
  from t have r: "applyAIResponse sampleEnv (plainResponse ''Nothing happens.'') fullBagState =
     fullBagState\<lparr>history := history fullBagState
                       @ [aiTurnOf sampleEnv (plainResponse ''Nothing happens.'') fullBagState],
                   isLoading := False, hpHistory := hpHistory fullBagState @ [hp fullBagState],
                   gameStatus := (if hp fullBagState = 0 then Lost else Ongoing),
                   phase := (if hp fullBagState = 0 then Game_over else Playing)\<rparr>"
    by blast
  have i: "inventory (applyAIResponse sampleEnv (plainResponse ''Nothing happens.'') fullBagState)
        = inventory fullBagState" by (simp add: r)
  have h: "hp (applyAIResponse sampleEnv (plainResponse ''Nothing happens.'') fullBagState)
        = hp fullBagState" by (simp add: r)
  have l: "length (history (applyAIResponse sampleEnv (plainResponse ''Nothing happens.'') fullBagState))
        = Suc (length (history fullBagState))" by (simp add: r)
  from v e g i h s l show ?thesis by blast
qed

text \<open>
  C4 as stated fails in a valid state whose status is won: the empty delta sets the
  status back to ongoing. And where the equipped weapon has the empty id (a state that
  keeps bag and slots apart), the empty delta puts the weapon into the bag.
\<close>

theorem C4_counterexample_won_state:
  "validState wonState \<and> emptyDelta (plainResponse ''Nothing happens.'')
   \<and> gameStatus wonState = Won
   \<and> gameStatus (applyAIResponse sampleEnv (plainResponse ''Nothing happens.'') wonState) = Ongoing
   \<and> idsApart (inventory emptyIdState) emptyIdState
   \<and> length (inventory emptyIdState) = 8
   \<and> length (inventory (applyAIResponse sampleEnv (plainResponse ''Nothing happens.'')
                          emptyIdState)) = 9"
  by code_simp

section \<open>The game status across reconciliations\<close>

lemma newHpOf_zero_iff:
  "newHpOf r prev = 0 \<longleftrightarrow> min (maxHp prev) (max 0 (hp prev + hpChangeOf r)) \<le> 0"
  by (auto simp: newHpOf_def Let_def min_def max_def split: if_splits)

text \<open>
  C9 (amended). The new status does not depend on the old one: it is lost when the new
  HP is zero, and otherwise the status of the delta (ongoing when the delta has none).
  So a status other than ongoing is never followed by ongoing under a delta whose own
  status is won or lost, or that leaves the HP at zero.
\<close>

theorem C9_status_from_delta_and_hp:
  "gameStatus (applyAIResponse env r prev) =
     (if hp (applyAIResponse env r prev) = 0 then Lost
      else (case game_status r of None \<Rightarrow> Ongoing | Some g \<Rightarrow> g))
   \<and> (game_status r = Some Won \<or> game_status r = Some Lost
        \<or> hp (applyAIResponse env r prev) = 0
       \<longrightarrow> gameStatus (applyAIResponse env r prev) \<noteq> Ongoing)"
  by (auto simp: hp_applyAIResponse gameStatus_applyAIResponse newHpOf_zero_iff statusOf_def Let_def)

text \<open>A won state stays won under a delta whose status is won.\<close>

theorem C9_scenario_won_stays_won:
  "gameStatus wonState = Won \<and> game_status wonResponse = Some Won
   \<and> gameStatus (applyAIResponse sampleEnv wonResponse wonState) = Won"
proof -
  have g: "game_status wonResponse = Some Won" by code_simp
  have h: "hp (applyAIResponse sampleEnv wonResponse wonState) \<noteq> 0" by code_simp
  have w: "gameStatus wonState = Won" by code_simp
  from C9_status_from_delta_and_hp [of sampleEnv wonResponse wonState] g h
  have "gameStatus (applyAIResponse sampleEnv wonResponse wonState) = Won" by simp
  with g w show ?thesis by blast
qed

text \<open>
  C9 as stated fails. In the run below the response of a heroic action sets the status
  to won and the phase to game over; the retry flag still stands from the earlier
  stop, a retry is issued, and its response, whose status is ongoing, sets the status
  back to ongoing and the phase back to playing. The same holds for the reconciler
  alone on the won state.
\<close>

theorem C9_counterexample_reverts_to_ongoing:
  "gameStatus (gameState runWon) = Won \<and> phase (gameState runWon) = Game_over
   \<and> showRetry runWon
   \<and> gameStatus (gameState runReverted) = Ongoing \<and> phase (gameState runReverted) = Playing
   \<and> gameStatus (applyAIResponse sampleEnv (plainResponse ''The story goes on.'') wonState) = Ongoing"
  by code_simp

section \<open>Request fencing, heroic actions and experience\<close>

lemma requestIdRef_responseArrives: "requestIdRef (responseArrives env rid r a) = requestIdRef a"
  by (simp add: responseArrives_def Let_def)

lemma responseArrives_superseded: "rid \<noteq> requestIdRef a \<Longrightarrow> responseArrives env rid r a = a"
  by (simp add: responseArrives_def)

lemma requestFails_superseded: "rid \<noteq> requestIdRef a \<Longrightarrow> requestFails rid a = a"
  by (simp add: requestFails_def)

lemma processTurn_id:
  "fst (processTurn c t rr ca lu arc a) = Suc (requestIdRef a)
   \<and> requestIdRef (snd (processTurn c t rr ca lu arc a)) = Suc (requestIdRef a)"
  by (simp add: processTurn_def issueRequest_def Let_def)

lemma handleStopRequest_id: "requestIdRef (handleStopRequest a) = Suc (requestIdRef a)"
  by (simp add: handleStopRequest_def)

lemma retry_after_stop:
  "fst (handleRetryRequest (handleStopRequest (snd (processTurn c t rr ca lu arc a))))
     = Some (Suc (Suc (Suc (requestIdRef a))))
   \<and> requestIdRef (snd (handleRetryRequest (handleStopRequest (snd (processTurn c t rr ca lu arc a)))))
     = Suc (Suc (Suc (requestIdRef a)))"
  by (simp add: handleRetryRequest_def handleStopRequest_def processTurn_def issueRequest_def Let_def)

lemma requestIdRef_processTurn:
  "requestIdRef (snd (processTurn c t rr ca lu arc a)) = Suc (requestIdRef a)"
  by (simp add: processTurn_def issueRequest_def Let_def)

lemma step_counter: "requestIdRef a \<le> requestIdRef (step env a e)"
proof (cases e)
  case (ChoiceClick g c b ch)
  then show ?thesis
    by (simp add: handleChoiceClick_def requestIdRef_processTurn Let_def)
next
  case (CustomChoiceSubmit c b t i)
  then show ?thesis
    by (simp add: handleCustomChoiceSubmit_def requestIdRef_processTurn Let_def)
next
  case StopRequest
  then show ?thesis by (simp add: handleStopRequest_def)
next
  case RetryRequest
  then show ?thesis
    by (simp add: handleRetryRequest_def issueRequest_def Let_def split: option.splits)
next
  case RollComplete
  then show ?thesis by (simp add: handleRollComplete_def)
next
  case (ResponseArrives rid r)
  then show ?thesis by (simp add: responseArrives_def Let_def)
next
  case (RequestFails rid)
  then show ?thesis by (simp add: requestFails_def)
qed

lemma run_counter: "requestIdRef a \<le> requestIdRef (run env events a)"
proof (induction events arbitrary: a)
  case Nil
  show ?case by (simp add: run_def)
next
  case (Cons e es)
  have "requestIdRef a \<le> requestIdRef (step env a e)" by (rule step_counter)
  also have "\<dots> \<le> requestIdRef (run env es (step env a e))" by (rule Cons)
  finally show ?case by (simp add: run_def)
qed

lemma stale_stays_stale:
  assumes "rid < requestIdRef a"
  shows "responseArrives env rid r (run env events a) = run env events a
         \<and> requestFails rid (run env events a) = run env events a"
proof -
  from assms run_counter [of a env events] have "rid \<noteq> requestIdRef (run env events a)"
    by simp
  then show ?thesis by (simp add: responseArrives_def requestFails_def)
qed

text \<open>
  C2. A response (or a failure) that arrives under an id other than the current one
  changes nothing at all. Consequently: request A is issued, then stopped, then request
  B is issued (by a new turn, or by a retry). A's id is no longer current; when A's
  response arrives, before or after B's, the state is the one B's response alone
  produces. And once a stop or a newer request has advanced the counter, A's id stays
  behind it through every further run of events, so A's response is discarded whenever
  it arrives.
\<close>

theorem C2_superseded_response_is_discarded:
  "(rid \<noteq> requestIdRef a \<longrightarrow> responseArrives env rid r a = a \<and> requestFails rid a = a)
   \<and> (let issuedA = processTurn clockA textA rollA customA levelA arcA a;
            stopped = handleStopRequest (snd issuedA);
            issuedB = processTurn clockB textB rollB customB levelB arcB stopped;
            idA = fst issuedA; idB = fst issuedB; s = snd issuedB
        in idA \<noteq> requestIdRef s
           \<and> responseArrives env idA rA s = s
           \<and> responseArrives env idB rB (responseArrives env idA rA s) = responseArrives env idB rB s
           \<and> responseArrives env idA rA (responseArrives env idB rB s) = responseArrives env idB rB s)
   \<and> (let issuedA = processTurn clockA textA rollA customA levelA arcA a;
            retried = handleRetryRequest (handleStopRequest (snd issuedA));
            idA = fst issuedA; s = snd retried
        in fst retried \<noteq> None \<and> fst retried \<noteq> Some idA
           \<and> responseArrives env idA rA s = s
           \<and> responseArrives env (the (fst retried)) rB (responseArrives env idA rA s)
              = responseArrives env (the (fst retried)) rB s)
   \<and> (let issuedA = processTurn clockA textA rollA customA levelA arcA a;
            afterStop = run env events (handleStopRequest (snd issuedA));
            afterNewer = run env events
                           (snd (processTurn clockB textB rollB customB levelB arcB (snd issuedA)))
        in responseArrives env (fst issuedA) rA afterStop = afterStop
           \<and> requestFails (fst issuedA) afterStop = afterStop
           \<and> responseArrives env (fst issuedA) rA afterNewer = afterNewer
           \<and> requestFails (fst issuedA) afterNewer = afterNewer)"
proof -
  let ?issuedA = "processTurn clockA textA rollA customA levelA arcA a"
  let ?stopped = "handleStopRequest (snd ?issuedA)"
  let ?issuedB = "processTurn clockB textB rollB customB levelB arcB ?stopped"
  let ?retried = "handleRetryRequest ?stopped"
  let ?newer = "snd (processTurn clockB textB rollB customB levelB arcB (snd ?issuedA))"
  have idA: "fst ?issuedA = Suc (requestIdRef a)"
    by (simp add: processTurn_id)
  have "requestIdRef (snd ?issuedB) = Suc (Suc (Suc (requestIdRef a)))"
    by (simp add: processTurn_id handleStopRequest_id)
  with idA have ne: "fst ?issuedA \<noteq> requestIdRef (snd ?issuedB)"
    by simp
  then have ne2: "fst ?issuedA \<noteq> requestIdRef (responseArrives env (fst ?issuedB) rB (snd ?issuedB))"
    by (simp add: requestIdRef_responseArrives)
  have re: "fst ?retried = Some (Suc (Suc (Suc (requestIdRef a))))
            \<and> requestIdRef (snd ?retried) = Suc (Suc (Suc (requestIdRef a)))"
    by (rule retry_after_stop)
  with idA have ne3: "fst ?issuedA \<noteq> requestIdRef (snd ?retried)"
    by simp
  have first: "rid \<noteq> requestIdRef a \<longrightarrow> responseArrives env rid r a = a \<and> requestFails rid a = a"
    by (simp add: responseArrives_superseded requestFails_superseded)
  have second: "fst ?issuedA \<noteq> requestIdRef (snd ?issuedB)
           \<and> responseArrives env (fst ?issuedA) rA (snd ?issuedB) = snd ?issuedB
           \<and> responseArrives env (fst ?issuedB) rB (responseArrives env (fst ?issuedA) rA (snd ?issuedB))
              = responseArrives env (fst ?issuedB) rB (snd ?issuedB)
           \<and> responseArrives env (fst ?issuedA) rA (responseArrives env (fst ?issuedB) rB (snd ?issuedB))
              = responseArrives env (fst ?issuedB) rB (snd ?issuedB)"
    using ne ne2 by (simp add: responseArrives_superseded)
  have third: "fst ?retried \<noteq> None \<and> fst ?retried \<noteq> Some (fst ?issuedA)
           \<and> responseArrives env (fst ?issuedA) rA (snd ?retried) = snd ?retried
           \<and> responseArrives env (the (fst ?retried)) rB
                (responseArrives env (fst ?issuedA) rA (snd ?retried))
              = responseArrives env (the (fst ?retried)) rB (snd ?retried)"
    using ne3 re idA by (simp add: responseArrives_superseded)
  have "fst ?issuedA < requestIdRef ?stopped"
    using idA by (simp add: processTurn_id handleStopRequest_id)
  from stale_stays_stale [OF this]
  have fourth: "responseArrives env (fst ?issuedA) rA (run env events ?stopped)
                  = run env events ?stopped
                \<and> requestFails (fst ?issuedA) (run env events ?stopped) = run env events ?stopped"
    by blast
  have "fst ?issuedA < requestIdRef ?newer"
    using idA by (simp add: processTurn_id)
  from stale_stays_stale [OF this]
  have fifth: "responseArrives env (fst ?issuedA) rA (run env events ?newer) = run env events ?newer
               \<and> requestFails (fst ?issuedA) (run env events ?newer) = run env events ?newer"
    by blast
  from first second third fourth fifth show ?thesis
    unfolding Let_def by blast
qed

text \<open>
  The scenario of C2 from the initial state: A's response would add two items; it
  arrives after the stop and the new request, and the state B's response produces has
  an empty bag.
\<close>

theorem C2_scenario_stop_then_new_request:
  "fst requestA = 1 \<and> fst requestB = 3 \<and> requestIdRef (snd requestB) = 3
   \<and> responseArrives sampleEnv (fst requestA) addTwo (snd requestB) = snd requestB
   \<and> responseArrives sampleEnv (fst requestB) (plainResponse ''A quiet room.'')
        (responseArrives sampleEnv (fst requestA) addTwo (snd requestB))
      = responseArrives sampleEnv (fst requestB) (plainResponse ''A quiet room.'') (snd requestB)
   \<and> inventory (gameState (responseArrives sampleEnv (fst requestB) (plainResponse ''A quiet room.'')
        (responseArrives sampleEnv (fst requestA) addTwo (snd requestB)))) = []
   \<and> length (inventory (gameState (responseArrives sampleEnv (fst requestB) addTwo (snd requestB)))) = 2"
proof -
  have ids: "fst requestA = 1 \<and> fst requestB = 3 \<and> requestIdRef (snd requestB) = 3"
    by code_simp
  then have ne: "fst requestA \<noteq> requestIdRef (snd requestB)" by simp
  note t = C2_superseded_response_is_discarded
    [of "fst requestA" "snd requestB" sampleEnv addTwo]
  from t ne have d: "responseArrives sampleEnv (fst requestA) addTwo (snd requestB) = snd requestB"
    by blast
  have i: "inventory (gameState (responseArrives sampleEnv (fst requestB)
             (plainResponse ''A quiet room.'') (snd requestB))) = []"
    by code_simp
  have j: "length (inventory (gameState (responseArrives sampleEnv (fst requestB) addTwo
             (snd requestB)))) = 2"
    by code_simp
  from ids d i j show ?thesis by simp
qed

text \<open>
  C10. With the budget of heroic actions used up, or with an active effect that blocks
  heroic actions, submitting a heroic action issues no request and leaves the whole
  state as it is: no history entry, no decrement of the budget.
\<close>

theorem C10_blocked_heroic_action_changes_nothing:
  "customChoicesRemaining (gameState a) \<le> 0 \<or> isHeroicBlocked (gameState a)
   \<Longrightarrow> handleCustomChoiceSubmit clock roll text itemId a = (None, a)"
  by (auto simp: handleCustomChoiceSubmit_def)

text \<open>C10 in a state without budget and in a state with a blocking effect.\<close>

theorem C10_scenario_exhausted_and_blocked:
  "customChoicesRemaining (gameState exhaustedApp) \<le> 0
   \<and> handleCustomChoiceSubmit ''1700000000003'' 12 ''I leap'' None exhaustedApp = (None, exhaustedApp)
   \<and> isHeroicBlocked (gameState stunnedApp) \<and> customChoicesRemaining (gameState stunnedApp) = 3
   \<and> handleCustomChoiceSubmit ''1700000000003'' 12 ''I leap'' None stunnedApp = (None, stunnedApp)"
proof -
  have e: "customChoicesRemaining (gameState exhaustedApp) \<le> 0" by code_simp
  have b: "isHeroicBlocked (gameState stunnedApp)" by code_simp
  have c: "customChoicesRemaining (gameState stunnedApp) = 3" by code_simp
  from e have 1: "handleCustomChoiceSubmit ''1700000000003'' 12 ''I leap'' None exhaustedApp
                  = (None, exhaustedApp)"
    by (intro C10_blocked_heroic_action_changes_nothing) simp
  from b have 2: "handleCustomChoiceSubmit ''1700000000003'' 12 ''I leap'' None stunnedApp
                  = (None, stunnedApp)"
    by (intro C10_blocked_heroic_action_changes_nothing) simp
  from e b c 1 2 show ?thesis by blast
qed

lemma handleCustomChoiceSubmit_allowed:
  assumes "0 < customChoicesRemaining (gameState a)" and "\<not> isHeroicBlocked (gameState a)"
  shows "fst (handleCustomChoiceSubmit clock roll text itemId a) = Some (Suc (requestIdRef a))
         \<and> customChoicesRemaining (gameState (snd (handleCustomChoiceSubmit clock roll text itemId a)))
            = customChoicesRemaining (gameState a) - 1
         \<and> length (history (gameState (snd (handleCustomChoiceSubmit clock roll text itemId a))))
            = Suc (length (history (gameState a)))"
  using assms
  by (simp add: handleCustomChoiceSubmit_def processTurn_def issueRequest_def Let_def)

lemma gainExperience_below:
  assumes "ex stat = Some (Num n)" and "n + 1 < EXP_THRESHOLD"
  shows "gainExperience stat st ex = (st, ex(stat \<mapsto> Num (n + 1)), None)"
  using assms by (simp add: gainExperience_def plusOne_def Let_def)

lemma gainExperience_reached:
  assumes "ex stat = Some (Num n)" and "EXP_THRESHOLD \<le> n + 1"
  shows "gainExperience stat st ex =
           (st(stat := st stat + 1), ex(stat \<mapsto> Num 0),
            Some \<lparr>lu_stat = stat, lu_oldValue = st stat, lu_newValue = st stat + 1\<rparr>)"
  using assms by (simp add: gainExperience_def plusOne_def Let_def)

lemma gainExperience_missing:
  assumes "ex stat = None \<or> ex stat = Some NaN"
  shows "gainExperience stat st ex = (st, ex(stat \<mapsto> NaN), None)"
  using assms by (auto simp: gainExperience_def plusOne_def Let_def)

lemma rollUpdate_failure: "rollUpdate stat False prev = (prev\<lparr>isRolling := True\<rparr>, None)"
  by (simp add: rollUpdate_def)

lemma statOfString_nonempty: "statOfString s = Some stat \<Longrightarrow> s \<noteq> []"
  by (auto simp: statOfString_def split: if_splits)

text \<open>
  The state that a click on a choice with a check leaves is the one of the state
  update, whether React runs the update at once or later; the user turn carries the
  event of the update in the first case and none in the second.
\<close>

lemma handleChoiceClick_state:
  assumes "\<not> isLoading (gameState a)" and "\<not> isRolling (gameState a)"
    and "enableDiceRolls a" and "ch_difficulty choice = Some (Num d)" and "d \<noteq> 0"
    and "ch_type choice = Some ty" and "statOfString ty = Some stat"
  shows "stats (gameState (snd (handleChoiceClick eager clock rollBase choice a)))
           = stats (fst (rollUpdate stat (d \<le> rollBase + getMod (currentStats (gameState a) stat))
                          (gameState a)))
         \<and> statExperience (gameState (snd (handleChoiceClick eager clock rollBase choice a)))
           = statExperience (fst (rollUpdate stat
                                    (d \<le> rollBase + getMod (currentStats (gameState a) stat))
                                    (gameState a)))"
  using assms statOfString_nonempty [OF assms(7)]
  by (simp add: handleChoiceClick_def processTurn_def issueRequest_def Let_def)

lemma handleChoiceClick_turn:
  assumes "\<not> isLoading (gameState a)" and "\<not> isRolling (gameState a)"
    and "enableDiceRolls a" and "ch_difficulty choice = Some (Num d)" and "d \<noteq> 0"
    and "ch_type choice = Some ty" and "statOfString ty = Some stat"
  shows "t_levelUpEvent (last (history (gameState (snd (handleChoiceClick eager clock rollBase choice a)))))
           = (if eager
              then snd (rollUpdate stat (d \<le> rollBase + getMod (currentStats (gameState a) stat))
                          (gameState a))
              else None)"
  using assms statOfString_nonempty [OF assms(7)]
  by (simp add: handleChoiceClick_def processTurn_def issueRequest_def Let_def)

text \<open>
  The sibling path, the \<^verbatim>\<open>action_result\<close> branch of the reconciler, puts the event it
  makes on the turn it appends.
\<close>

lemma action_success_reached:
  assumes "action_result r = Some ar" and "statOfString (ar_stat ar) = Some stat"
    and "ar_is_success ar = Some True"
    and "statExperience prev stat = Some (Num n)" and "EXP_THRESHOLD \<le> n + 1"
  shows "statExperience (applyAIResponse env r prev) stat = Some (Num 0)
         \<and> stats (applyAIResponse env r prev) stat = statsAfterUpdate r (stats prev) stat + 1
         \<and> t_levelUpEvent (last (history (applyAIResponse env r prev)))
            = Some \<lparr>lu_stat = stat, lu_oldValue = statsAfterUpdate r (stats prev) stat,
                    lu_newValue = statsAfterUpdate r (stats prev) stat + 1\<rparr>"
  using assms
  by (simp add: applyAIResponse_def aiTurnOf_def afterActionResult_def gainExperience_reached Let_def)

lemma handleNewGame_counters: "statExperience (handleNewGame prev) axis = Some (Num 0)"
  by (cases axis) (simp_all add: handleNewGame_def)

text \<open>
  C6. A successful check is to add one to the experience of its axis and, at the
  threshold 3, to reset the counter, raise the base stat by one and emit a level-up
  event with the new value one above the old one, attached to the turn. The code
  misses this in two places.

  Three successful checks of Strength, clicked from the first scene on: before the
  third click the counter is 2 and Strength is 10, and the state update of the third
  click makes the event from 10 to 11. After the click Strength is 11 and the counter
  is 0, but none of the seven turns of the history carries a level-up event: the
  handler has read its variable before the queued update has written it.

  The game is reset while the first request is under way and the response arrives
  afterwards: the state is in play with no counter for Perception, since
  \<^verbatim>\<open>handleRestart\<close> writes five counters where the initial state and \<^verbatim>\<open>handleNewGame\<close>
  write seven. A successful check of Perception then stores \<^verbatim>\<open>NaN\<close> instead of 1.
\<close>

theorem C6_level_up_event_lost_and_counter_nan:
  "currentChoices twoStrongApp = [strChoice]
   \<and> statExperience (gameState twoStrongApp) S_STR = Some (Num 2)
   \<and> stats (gameState twoStrongApp) S_STR = 10
   \<and> snd (rollUpdate S_STR True (gameState twoStrongApp))
       = Some \<lparr>lu_stat = S_STR, lu_oldValue = 10, lu_newValue = 11\<rparr>
   \<and> map_option rr_isSuccess (t_rollResult (last (history (gameState (snd thirdClick)))))
       = Some (Some True)
   \<and> stats (gameState (snd thirdClick)) S_STR = 11
   \<and> statExperience (gameState (snd thirdClick)) S_STR = Some (Num 0)
   \<and> map t_levelUpEvent (history (gameState (snd thirdClick)))
       = [None, None, None, None, None, None, None]
   \<and> currentChoices restartedApp = [perChoice]
   \<and> phase (gameState restartedApp) = Playing
   \<and> statExperience (gameState restartedApp) S_PER = None
   \<and> map_option rr_isSuccess (t_rollResult (last (history (gameState (snd perClick)))))
       = Some (Some True)
   \<and> statExperience (gameState (snd perClick)) S_PER = Some NaN"
proof -
  have a0: "currentChoices twoStrongApp = [strChoice]" by code_simp
  have a1: "statExperience (gameState twoStrongApp) S_STR = Some (Num 2)" by code_simp
  have a2: "stats (gameState twoStrongApp) S_STR = 10" by code_simp
  have a3: "snd (rollUpdate S_STR True (gameState twoStrongApp))
              = Some \<lparr>lu_stat = S_STR, lu_oldValue = 10, lu_newValue = 11\<rparr>"
    by code_simp
  have a4: "map_option rr_isSuccess (t_rollResult (last (history (gameState (snd thirdClick)))))
              = Some (Some True)"
    by code_simp
  have a5: "stats (gameState (snd thirdClick)) S_STR = 11" by code_simp
  have a6: "statExperience (gameState (snd thirdClick)) S_STR = Some (Num 0)" by code_simp
  have a7: "map t_levelUpEvent (history (gameState (snd thirdClick)))
              = [None, None, None, None, None, None, None]"
    by code_simp
  have b0: "currentChoices restartedApp = [perChoice]" by code_simp
  have b1: "phase (gameState restartedApp) = Playing" by code_simp
  have b2: "statExperience (gameState restartedApp) S_PER = None" by code_simp
  have b3: "map_option rr_isSuccess (t_rollResult (last (history (gameState (snd perClick)))))
              = Some (Some True)"
    by code_simp
  have b4: "statExperience (gameState (snd perClick)) S_PER = Some NaN" by code_simp
  from a0 a1 a2 a3 a4 a5 a6 a7 b0 b1 b2 b3 b4 show ?thesis by blast
qed

section \<open>Double rounding and the rescaled HP\<close>

lemma quotient_of_abs_pos:
  assumes "x \<noteq> 0"
  shows "0 < fst (quotient_of \<bar>x\<bar>) \<and> 0 < snd (quotient_of \<bar>x\<bar>)
         \<and> \<bar>x\<bar> = of_int (fst (quotient_of \<bar>x\<bar>)) / of_int (snd (quotient_of \<bar>x\<bar>))"
proof -
  obtain p q where pq: "quotient_of \<bar>x\<bar> = (p, q)" by (cases "quotient_of \<bar>x\<bar>")
  then have q: "0 < q" by (rule quotient_of_denom_pos)
  from pq have eq: "\<bar>x\<bar> = of_int p / of_int q" by (rule quotient_of_div)
  have "0 < \<bar>x\<bar>" using assms by simp
  with eq q have "0 < p" by (simp add: zero_less_divide_iff)
  with q eq pq show ?thesis by simp
qed

lemma pow2_bitlen:
  assumes "0 < (p::int)"
  shows "(2::rat) powi (bitlen p - 1) \<le> of_int p \<and> of_int p < (2::rat) powi (bitlen p)"
proof -
  from assms have b: "2 ^ nat (bitlen p - 1) \<le> p \<and> p < 2 ^ nat (bitlen p)"
    by (rule bitlen_bounds)
  from assms have ge: "1 \<le> bitlen p" by (auto simp: bitlen_alt_def)
  have "(of_int (2 ^ nat (bitlen p - 1)) :: rat) \<le> of_int p"
    using b by (simp only: of_int_le_iff)
  moreover have "(of_int p :: rat) < of_int (2 ^ nat (bitlen p))"
    using b by (simp only: of_int_less_iff)
  ultimately show ?thesis
    using ge by (simp add: power_int_nonneg_exp)
qed


lemma expo_bounds:
  assumes "x \<noteq> 0"
  shows "2 powi (expo x) \<le> \<bar>x\<bar> \<and> \<bar>x\<bar> < 2 powi (expo x + 1)"
proof -
  define p where "p = fst (quotient_of \<bar>x\<bar>)"
  define q where "q = snd (quotient_of \<bar>x\<bar>)"
  define k where "k = bitlen p - bitlen q"
  from quotient_of_abs_pos [OF assms]
  have p: "0 < p" and q: "0 < q" and x: "\<bar>x\<bar> = of_int p / of_int q"
    by (simp_all add: p_def q_def)
  note bp = pow2_bitlen [OF p] and bq = pow2_bitlen [OF q]
  have qpos: "(0::rat) < of_int q" using q by simp
  have two: "(0::rat) < 2 powi n" for n by (simp add: power_int_def)
  have "\<bar>x\<bar> * of_int q = of_int p" using x qpos by simp
  have up: "\<bar>x\<bar> < 2 powi (k + 1)"
  proof -
    have "of_int p < (2::rat) powi (bitlen p)" using bp by simp
    also have "\<dots> = 2 powi (k + 1) * 2 powi (bitlen q - 1)"
      by (simp add: k_def power_int_add [symmetric])
    also have "\<dots> \<le> 2 powi (k + 1) * of_int q"
      using bq two [of "k + 1"] by (simp add: mult_left_mono)
    finally have "of_int p < 2 powi (k + 1) * (of_int q :: rat)" .
    then show ?thesis using qpos x by (simp add: pos_divide_less_eq)
  qed
  have low: "2 powi (k - 1) < \<bar>x\<bar>"
  proof -
    have "2 powi (k - 1) * (of_int q :: rat) < 2 powi (k - 1) * 2 powi (bitlen q)"
      using bq two [of "k - 1"] by (simp add: mult_strict_left_mono)
    also have "\<dots> = 2 powi (bitlen p - 1)"
      by (simp add: k_def power_int_add [symmetric])
    also have "\<dots> \<le> of_int p" using bp by simp
    finally have "2 powi (k - 1) * (of_int q :: rat) < of_int p" .
    then show ?thesis using qpos x by (simp add: pos_less_divide_eq)
  qed
  have e: "expo x = (if 2 powi k \<le> \<bar>x\<bar> then k else k - 1)"
    by (simp add: expo_def Let_def p_def q_def k_def)
  show ?thesis
  proof (cases "2 powi k \<le> \<bar>x\<bar>")
    case True
    with e up show ?thesis by simp
  next
    case False
    with e low show ?thesis by simp
  qed
qed

lemma roundHalfEven_near: "\<bar>of_int (roundHalfEven x) - x\<bar> \<le> 1 / 2"
proof -
  define f where "f = \<lfloor>x\<rfloor>"
  have a: "of_int f \<le> x" and b: "x < of_int f + 1"
    unfolding f_def by linarith+
  have r: "roundHalfEven x =
             (if x - of_int f < 1 / 2 then f
              else if 1 / 2 < x - of_int f then f + 1 else if even f then f else f + 1)"
    by (simp add: roundHalfEven_def Let_def f_def)
  show ?thesis
    using a b unfolding r by (auto simp: abs_if)
qed

lemma fl_error:
  "\<bar>fl x - x\<bar> \<le> \<bar>x\<bar> / 2 ^ 53"
proof (cases "x = 0")
  case True
  then show ?thesis by (simp add: fl_def)
next
  case False
  define u :: rat where "u = 2 powi (expo x - 52)"
  have u: "0 < u" by (simp add: u_def power_int_def)
  have f: "fl x = of_int (roundHalfEven (x / u)) * u"
    using False by (simp add: fl_def u_def Let_def)
  have "\<bar>fl x - x\<bar> = \<bar>of_int (roundHalfEven (x / u)) - x / u\<bar> * u"
  proof -
    have "fl x - x = (of_int (roundHalfEven (x / u)) - x / u) * u"
      using u by (simp add: f algebra_simps)
    then show ?thesis using u by (simp add: abs_mult)
  qed
  also have "\<dots> \<le> (1 / 2) * u"
    using roundHalfEven_near [of "x / u"] u by (intro mult_right_mono) simp_all
  also have "\<dots> = 2 powi (expo x) / 2 ^ 53"
  proof -
    have "(2::rat) powi (expo x - 52) = 2 powi (expo x) / 2 powi 52"
      by (rule power_int_diff) simp
    then show ?thesis by (simp add: u_def)
  qed
  also have "\<dots> \<le> \<bar>x\<bar> / 2 ^ 53"
    using expo_bounds [OF False] by (simp add: divide_right_mono)
  finally show ?thesis .
qed


lemma rescale_close:
  fixes h m n :: int
  assumes h: "0 \<le> h" "h \<le> m" and m: "0 < m" and n: "0 \<le> n" "n < 2 ^ 24"
  shows "\<bar>fl (of_int n * fl (of_int h / of_int m)) - of_int (h * n) / of_int m\<bar> \<le> 3 / 2 ^ 29"
proof -
  define t :: rat where "t = of_int h / of_int m"
  define r where "r = fl t"
  define y where "y = fl (of_int n * r)"
  define N :: rat where "N = of_int n"
  have t: "0 \<le> t" "t \<le> 1" using h m by (simp_all add: t_def)
  have N: "0 \<le> N" "N \<le> 2 ^ 24" using n by (simp_all add: N_def)
  have e1: "\<bar>r - t\<bar> \<le> t / 2 ^ 53"
    using fl_error [of t] t by (simp add: r_def)
  then have r1: "\<bar>r\<bar> \<le> 2" using t by (auto simp: abs_if split: if_splits)
  have e2: "\<bar>y - N * r\<bar> \<le> \<bar>N * r\<bar> / 2 ^ 53"
    using fl_error [of "N * r"] by (simp add: y_def N_def)
  have "\<bar>N * r\<bar> \<le> 2 ^ 24 * 2"
    unfolding abs_mult using N r1 by (intro mult_mono) simp_all
  with e2 have e3: "\<bar>y - N * r\<bar> \<le> 2 / 2 ^ 29" by simp
  have "\<bar>N * r - N * t\<bar> = N * \<bar>r - t\<bar>"
    using N by (simp add: right_diff_distrib [symmetric] abs_mult)
  also have "\<dots> \<le> 2 ^ 24 * (1 / 2 ^ 53)"
  proof (intro mult_mono)
    show "\<bar>r - t\<bar> \<le> 1 / 2 ^ 53" using e1 t by (simp add: field_simps)
  qed (use N in simp_all)
  finally have e4: "\<bar>N * r - N * t\<bar> \<le> 1 / 2 ^ 29" by simp
  have "\<bar>y - N * t\<bar> \<le> \<bar>y - N * r\<bar> + \<bar>N * r - N * t\<bar>" by simp
  with e3 e4 have "\<bar>y - N * t\<bar> \<le> 3 / 2 ^ 29" by simp
  moreover have "N * t = of_int (h * n) / of_int m"
    by (simp add: N_def t_def)
  ultimately have "\<bar>y - of_int (h * n) / of_int m\<bar> \<le> 3 / 2 ^ 29"
    by simp
  then show ?thesis
    unfolding y_def r_def t_def N_def .
qed

lemma rescale_nearest:
  fixes h m n :: int
  assumes h: "0 \<le> h" "h \<le> m" and m: "0 < m" "m < 2 ^ 24" and n: "0 \<le> n" "n < 2 ^ 24"
  defines "k \<equiv> jsRound (fl (of_int n * fl (of_int h / of_int m)))"
  shows "2 * \<bar>k * m - h * n\<bar> \<le> m \<and> 0 \<le> k \<and> k \<le> n"
proof -
  define y where "y = fl (of_int n * fl (of_int h / of_int m))"
  define M :: rat where "M = of_int m"
  have M: "0 < M" "M < 2 ^ 24" using m by (simp_all add: M_def)
  have c: "\<bar>y - of_int (h * n) / M\<bar> \<le> 3 / 2 ^ 29"
    unfolding y_def M_def using h m(1) n by (rule rescale_close)
  have k: "of_int k \<le> y + 1 / 2" "y + 1 / 2 < of_int k + 1"
    unfolding k_def y_def [symmetric] jsRound_def by linarith+
  have small: "3 / 2 ^ 29 * M < 1 / 2"
  proof -
    have "3 / 2 ^ 29 * M < 3 / 2 ^ 29 * 2 ^ 24" using M by (intro mult_strict_left_mono) simp_all
    then show ?thesis by simp
  qed
  have c2: "\<bar>y * M - of_int (h * n)\<bar> \<le> 3 / 2 ^ 29 * M"
  proof -
    have "y * M - of_int (h * n) = (y - of_int (h * n) / M) * M"
      using M by (simp add: field_simps)
    then have "\<bar>y * M - of_int (h * n)\<bar> = \<bar>y - of_int (h * n) / M\<bar> * M"
      using M by (simp add: abs_mult)
    also have "\<dots> \<le> 3 / 2 ^ 29 * M" using c M by (intro mult_right_mono) simp_all
    finally show ?thesis .
  qed
  have k1: "of_int k * M \<le> y * M + M / 2"
  proof -
    have "of_int k * M \<le> (y + 1 / 2) * M" using k(1) M by (intro mult_right_mono) simp_all
    then show ?thesis by (simp add: algebra_simps)
  qed
  have k2: "y * M + M / 2 < of_int k * M + M"
  proof -
    have "(y + 1 / 2) * M < (of_int k + 1) * M" using k(2) M by (intro mult_strict_right_mono) simp_all
    then show ?thesis by (simp add: algebra_simps)
  qed
  have up: "2 * (k * m - h * n) \<le> m"
  proof (rule ccontr)
    assume "\<not> 2 * (k * m - h * n) \<le> m"
    then have "m + 1 \<le> 2 * (k * m - h * n)" by simp
    then have "(of_int (m + 1) :: rat) \<le> of_int (2 * (k * m - h * n))"
      by (simp only: of_int_le_iff)
    then have "M + 1 \<le> 2 * (of_int k * M - of_int (h * n))"
      by (simp add: M_def)
    with k1 c2 small show False by (simp add: abs_le_iff)
  qed
  have low: "2 * (h * n - k * m) \<le> m"
  proof (rule ccontr)
    assume "\<not> 2 * (h * n - k * m) \<le> m"
    then have "m + 1 \<le> 2 * (h * n - k * m)" by simp
    then have "(of_int (m + 1) :: rat) \<le> of_int (2 * (h * n - k * m))"
      by (simp only: of_int_le_iff)
    then have "M + 1 \<le> 2 * (of_int (h * n) - of_int k * M)"
      by (simp add: M_def)
    with k2 c2 small show False by (simp add: abs_le_iff)
  qed
  from up low have near: "2 * \<bar>k * m - h * n\<bar> \<le> m" by (simp add: abs_if)
  have hn: "0 \<le> h * n" "h * n \<le> m * n"
    using h n by (simp_all add: mult_right_mono)
  have "0 \<le> k"
  proof (rule ccontr)
    assume "\<not> 0 \<le> k"
    then have "k \<le> - 1" by simp
    then have "k * m \<le> - 1 * m" using m by (intro mult_right_mono) simp_all
    with low hn m show False by simp
  qed
  moreover have "k \<le> n"
  proof (rule ccontr)
    assume "\<not> k \<le> n"
    then have "n + 1 \<le> k" by simp
    then have "(n + 1) * m \<le> k * m" using m by (intro mult_right_mono) simp_all
    with up hn m show False by (simp add: algebra_simps)
  qed
  ultimately show ?thesis using near by simp
qed

lemma near_and_divisible:
  fixes k m h n :: int
  assumes "2 * \<bar>k * m - h * n\<bar> \<le> m" and "0 < m" and "m dvd h * n"
  shows "k * m = h * n"
proof -
  have d: "m dvd k * m - h * n" using assms(3) by (simp add: dvd_diff)
  have less: "\<bar>k * m - h * n\<bar> < m" using assms(1,2) by simp
  have "k * m - h * n = 0"
  proof (rule ccontr)
    assume "k * m - h * n \<noteq> 0"
    then have "0 < \<bar>k * m - h * n\<bar>" by simp
    then have "\<not> m dvd \<bar>k * m - h * n\<bar>" using less by (rule zdvd_not_zless)
    with d show False by simp
  qed
  then show ?thesis by simp
qed

text \<open>
  C5 (amended). In a state with \<open>0 \<le> hp \<le> maxHp\<close>, \<open>0 < maxHp\<close> and a new maximum that is
  not negative (both maxima below \<open>2\<^sup>2\<^sup>4\<close>), the recomputation sets the maximal HP to
  \<open>100 + 10 * \<lfloor>(CON - 10) / 2\<rfloor>\<close> for the effective Constitution, and the HP to an integer
  nearest to \<open>hp * newMax / oldMax\<close>: it is off by at most one half, it is exact when the
  quotient is an integer, and it lies between zero and the new maximum. The code
  clamps nowhere; the bounds follow from the bounds of the old HP.
\<close>

theorem C5_max_hp_recomputed:
  assumes "0 \<le> hp prev" and "hp prev \<le> maxHp prev" and "0 < maxHp prev" and "maxHp prev < 2 ^ 24"
    and "0 \<le> newMaxHpOf prev" and "newMaxHpOf prev < 2 ^ 24"
  shows "case recalcMaxHp prev of
           None \<Rightarrow> False
         | Some s \<Rightarrow>
             maxHp s = 100 + 10 * ((currentStats prev S_CON - 10) div 2)
             \<and> 2 * \<bar>hp s * maxHp prev - hp prev * maxHp s\<bar> \<le> maxHp prev
             \<and> (maxHp prev dvd hp prev * maxHp s \<longrightarrow> hp s * maxHp prev = hp prev * maxHp s)
             \<and> 0 \<le> hp s \<and> hp s \<le> maxHp s
             \<and> s = prev\<lparr>maxHp := maxHp s, hp := hp s\<rparr>"
proof (cases "maxHp prev = newMaxHpOf prev")
  case True
  then have "recalcMaxHp prev = Some prev"
    by (simp add: recalcMaxHp_def Let_def)
  with True assms show ?thesis
    by (simp add: newMaxHpOf_def BASE_HP_def getMod_def)
next
  case False
  define k where
    "k = jsRound (fl (of_int (newMaxHpOf prev) * fl (of_int (hp prev) / of_int (maxHp prev))))"
  from False assms(3) have r: "recalcMaxHp prev = Some (prev\<lparr>maxHp := newMaxHpOf prev, hp := k\<rparr>)"
    by (simp add: recalcMaxHp_def Let_def k_def)
  from rescale_nearest [OF assms]
  have n: "2 * \<bar>k * maxHp prev - hp prev * newMaxHpOf prev\<bar> \<le> maxHp prev \<and> 0 \<le> k
        \<and> k \<le> newMaxHpOf prev"
    by (simp add: k_def)
  then have "maxHp prev dvd hp prev * newMaxHpOf prev
             \<longrightarrow> k * maxHp prev = hp prev * newMaxHpOf prev"
    using assms(3) by (blast intro: near_and_divisible)
  with r n show ?thesis
    by (simp add: newMaxHpOf_def BASE_HP_def getMod_def)
qed

text \<open>
  The scenario of C5: base Constitution 10 and 100 of 100 HP; the amulet (Constitution
  +2) is equipped, the effective Constitution is 12, and the recomputation gives 110 of
  110 HP.
\<close>

theorem C5_scenario_amulet:
  "stats amuletEquipped S_CON = 10 \<and> currentStats amuletEquipped S_CON = 12
   \<and> hp amuletEquipped = 100 \<and> maxHp amuletEquipped = 100
   \<and> newMaxHpOf amuletEquipped = 110
   \<and> map_option (\<lambda>s. (maxHp s, hp s)) (recalcMaxHp amuletEquipped) = Some (110, 110)"
proof -
  have a: "stats amuletEquipped S_CON = 10 \<and> currentStats amuletEquipped S_CON = 12
           \<and> hp amuletEquipped = 100 \<and> maxHp amuletEquipped = 100
           \<and> newMaxHpOf amuletEquipped = 110"
    by code_simp
  then have "0 \<le> hp amuletEquipped" "hp amuletEquipped \<le> maxHp amuletEquipped"
    "0 < maxHp amuletEquipped" "maxHp amuletEquipped < 2 ^ 24"
    "0 \<le> newMaxHpOf amuletEquipped" "newMaxHpOf amuletEquipped < 2 ^ 24"
    by simp_all
  from C5_max_hp_recomputed [OF this] a
  have "map_option (\<lambda>s. (maxHp s, hp s)) (recalcMaxHp amuletEquipped) = Some (110, 110)"
    by (auto split: option.splits)
  with a show ?thesis by blast
qed

text \<open>
  C5 as stated fails in the state with 35 of 100 HP whose effective Constitution
  drops to 8: the new maximum is 90, and \<open>35 * 90 / 100 = 31.5\<close> rounds to 32, which lies
  within the bounds; but the code divides first, the double nearest to \<open>0.35\<close> lies below
  it, and \<^verbatim>\<open>Math.round(90 * 0.35)\<close> is 31.
\<close>

theorem C5_counterexample_ratio_first:
  "hp weakenedState = 35 \<and> maxHp weakenedState = 100
   \<and> currentStats weakenedState S_CON = 8
   \<and> map_option (\<lambda>s. (maxHp s, hp s)) (recalcMaxHp weakenedState) = Some (90, 31)
   \<and> clamp (jsRound (of_int (35 * 90) / of_int 100)) 0 90 = 32"
  by code_simp

section \<open>The normalizer: skipped lines, defaults and the exception\<close>

lemma startsWith_append: "startsWith p s \<Longrightarrow> s = p @ drop (length p) s"
  by (metis append_take_drop_id startsWith_def)

lemma key_item_add:
  assumes "startsWith ''ITEM_ADD:'' s"
  shows "\<not> startsWith ''HP:'' s" "\<not> startsWith ''STATUS:'' s" "\<not> startsWith ''QUEST:'' s"
proof -
  obtain t where "s = ''ITEM_ADD:'' @ t" using startsWith_append [OF assms] ..
  then show "\<not> startsWith ''HP:'' s" "\<not> startsWith ''STATUS:'' s" "\<not> startsWith ''QUEST:'' s"
    by (simp_all add: startsWith_def)
qed

lemma key_item_remove:
  assumes "startsWith ''ITEM_REMOVE:'' s"
  shows "\<not> startsWith ''HP:'' s" "\<not> startsWith ''STATUS:'' s" "\<not> startsWith ''QUEST:'' s"
    "\<not> startsWith ''ITEM_ADD:'' s"
proof -
  obtain t where "s = ''ITEM_REMOVE:'' @ t" using startsWith_append [OF assms] ..
  then show "\<not> startsWith ''HP:'' s" "\<not> startsWith ''STATUS:'' s" "\<not> startsWith ''QUEST:'' s"
    "\<not> startsWith ''ITEM_ADD:'' s"
    by (simp_all add: startsWith_def)
qed

lemma key_equip:
  assumes "startsWith ''EQUIP:'' s"
  shows "\<not> startsWith ''HP:'' s" "\<not> startsWith ''STATUS:'' s" "\<not> startsWith ''QUEST:'' s"
    "\<not> startsWith ''ITEM_ADD:'' s" "\<not> startsWith ''ITEM_REMOVE:'' s"
proof -
  obtain t where "s = ''EQUIP:'' @ t" using startsWith_append [OF assms] ..
  then show "\<not> startsWith ''HP:'' s" "\<not> startsWith ''STATUS:'' s" "\<not> startsWith ''QUEST:'' s"
    "\<not> startsWith ''ITEM_ADD:'' s" "\<not> startsWith ''ITEM_REMOVE:'' s"
    by (simp_all add: startsWith_def)
qed

lemma key_unequip:
  assumes "startsWith ''UNEQUIP:'' s"
  shows "\<not> startsWith ''HP:'' s" "\<not> startsWith ''STATUS:'' s" "\<not> startsWith ''QUEST:'' s"
    "\<not> startsWith ''ITEM_ADD:'' s" "\<not> startsWith ''ITEM_REMOVE:'' s"
    "\<not> startsWith ''EQUIP:'' s"
proof -
  obtain t where "s = ''UNEQUIP:'' @ t" using startsWith_append [OF assms] ..
  then show "\<not> startsWith ''HP:'' s" "\<not> startsWith ''STATUS:'' s" "\<not> startsWith ''QUEST:'' s"
    "\<not> startsWith ''ITEM_ADD:'' s" "\<not> startsWith ''ITEM_REMOVE:'' s"
    "\<not> startsWith ''EQUIP:'' s"
    by (simp_all add: startsWith_def)
qed

lemma key_effect_add:
  assumes "startsWith ''EFFECT_ADD:'' s"
  shows "\<not> startsWith ''HP:'' s" "\<not> startsWith ''STATUS:'' s" "\<not> startsWith ''QUEST:'' s"
    "\<not> startsWith ''ITEM_ADD:'' s" "\<not> startsWith ''ITEM_REMOVE:'' s"
    "\<not> startsWith ''EQUIP:'' s" "\<not> startsWith ''UNEQUIP:'' s"
proof -
  obtain t where "s = ''EFFECT_ADD:'' @ t" using startsWith_append [OF assms] ..
  then show "\<not> startsWith ''HP:'' s" "\<not> startsWith ''STATUS:'' s" "\<not> startsWith ''QUEST:'' s"
    "\<not> startsWith ''ITEM_ADD:'' s" "\<not> startsWith ''ITEM_REMOVE:'' s"
    "\<not> startsWith ''EQUIP:'' s" "\<not> startsWith ''UNEQUIP:'' s"
    by (simp_all add: startsWith_def)
qed

lemmas line_steps =
  updateLine_def hpStep_def statusStep_def questStep_def itemAddStep_def itemRemoveStep_def
  equipStep_def unequipStep_def effectAddStep_def thenStep_def Let_def

lemma updateLine_none:
  assumes "noneDirective line"
  shows "updateLine ids r line = r"
proof -
  define cl where "cl = trim line"
  from assms consider
      (add) "startsWith ''ITEM_ADD:'' cl" "toUpperCase (firstPartAfter ''ITEM_ADD:'' cl) = ''NONE''"
    | (remove) "startsWith ''ITEM_REMOVE:'' cl"
        "toUpperCase (trim (removeFirst ''ITEM_REMOVE:'' cl)) = ''NONE''"
    | (equip) "startsWith ''EQUIP:'' cl" "toUpperCase (trim (removeFirst ''EQUIP:'' cl)) = ''NONE''"
    | (unequip) "startsWith ''UNEQUIP:'' cl"
        "toUpperCase (trim (removeFirst ''UNEQUIP:'' cl)) = ''NONE''"
    | (effect) "startsWith ''EFFECT_ADD:'' cl"
        "toUpperCase (firstPartAfter ''EFFECT_ADD:'' cl) = ''NONE''"
    by (auto simp: noneDirective_def Let_def cl_def)
  then show ?thesis
  proof cases
    case add
    with key_item_add [OF add(1)] show ?thesis
      by (simp add: line_steps cl_def [symmetric])
  next
    case remove
    with key_item_remove [OF remove(1)] show ?thesis
      by (simp add: line_steps cl_def [symmetric])
  next
    case equip
    with key_equip [OF equip(1)] show ?thesis
      by (simp add: line_steps cl_def [symmetric])
  next
    case unequip
    with key_unequip [OF unequip(1)] show ?thesis
      by (simp add: line_steps cl_def [symmetric])
  next
    case effect
    with key_effect_add [OF effect(1)] show ?thesis
      by (simp add: line_steps cl_def [symmetric])
  qed
qed

lemma parseUpdates_none:
  assumes "noneDirective line"
  shows "parseUpdates ids (xs @ line # ys) r = parseUpdates ids (xs @ ys) r"
  by (simp add: parseUpdates_def updateLine_none [OF assms])

text \<open>
  C8. A line of the section \<^verbatim>\<open>UPDATES\<close> that starts with \<^verbatim>\<open>ITEM_ADD:\<close>, \<^verbatim>\<open>ITEM_REMOVE:\<close>,
  \<^verbatim>\<open>EQUIP:\<close>, \<^verbatim>\<open>UNEQUIP:\<close> or \<^verbatim>\<open>EFFECT_ADD:\<close> and whose name is \<^verbatim>\<open>NONE\<close> in any case of
  letters leaves the response as it is; so the delta of a text is the delta of the
  text's update lines without that line.
\<close>

theorem C8_none_line_is_skipped:
  assumes "noneDirective line"
  shows "updateLine ids r line = r
         \<and> parseUpdates ids (xs @ line # ys) r = parseUpdates ids (xs @ ys) r
         \<and> (updateLinesOf text = xs @ line # ys \<longrightarrow>
              parseTextResponse ids text =
                parseBody ids text (sectionOf text ''NARRATIVE'') (sectionOf text ''CHOICES'')
                  (xs @ ys) (sectionOf text ''ACTION_RESULT''))"
  using assms
  by (simp add: updateLine_none parseUpdates_none parseTextResponse_def parseBody_def)

text \<open>
  The scenario of C8: the text with the only update line \<^verbatim>\<open>ITEM_REMOVE: NONE\<close> has no
  removals at all (while \<^verbatim>\<open>ITEM_REMOVE: Rope\<close> has one); and lines of the other keys that
  the condition covers.
\<close>

theorem C8_scenario_item_remove_none:
  "noneDirective ''ITEM_REMOVE: NONE''
   \<and> updateLinesOf ''### UPDATES\<newline>ITEM_REMOVE: NONE'' = [''ITEM_REMOVE: NONE'']
   \<and> map_sum id inventory_removed
        (parseTextResponse (sampleId ''fx'') ''### UPDATES\<newline>ITEM_REMOVE: NONE'') = Inr None
   \<and> map_sum id inventory_removed
        (parseTextResponse (sampleId ''fx'') ''### UPDATES\<newline>ITEM_REMOVE: Rope'')
        = Inr (Some [''Rope''])
   \<and> noneDirective ''  ITEM_ADD: none | misc''
   \<and> noneDirective ''EFFECT_ADD: None | debuff | 3''
   \<and> noneDirective ''EQUIP: none'' \<and> noneDirective ''UNEQUIP:NONE''"
proof -
  have n: "noneDirective ''ITEM_REMOVE: NONE''" by code_simp
  have u: "updateLinesOf ''### UPDATES\<newline>ITEM_REMOVE: NONE'' = [''ITEM_REMOVE: NONE'']"
    by code_simp
  from C8_none_line_is_skipped [OF n, of _ _ "[]" "[]" "''### UPDATES\<newline>ITEM_REMOVE: NONE''"] u
  have "parseTextResponse (sampleId ''fx'') ''### UPDATES\<newline>ITEM_REMOVE: NONE'' =
          parseBody (sampleId ''fx'') ''### UPDATES\<newline>ITEM_REMOVE: NONE''
            (sectionOf ''### UPDATES\<newline>ITEM_REMOVE: NONE'' ''NARRATIVE'')
            (sectionOf ''### UPDATES\<newline>ITEM_REMOVE: NONE'' ''CHOICES'') []
            (sectionOf ''### UPDATES\<newline>ITEM_REMOVE: NONE'' ''ACTION_RESULT'')"
    by simp
  moreover have "map_sum id inventory_removed
          (parseBody (sampleId ''fx'') ''### UPDATES\<newline>ITEM_REMOVE: NONE''
            (sectionOf ''### UPDATES\<newline>ITEM_REMOVE: NONE'' ''NARRATIVE'')
            (sectionOf ''### UPDATES\<newline>ITEM_REMOVE: NONE'' ''CHOICES'') []
            (sectionOf ''### UPDATES\<newline>ITEM_REMOVE: NONE'' ''ACTION_RESULT'')) = Inr None"
    by code_simp
  ultimately have p: "map_sum id inventory_removed
        (parseTextResponse (sampleId ''fx'') ''### UPDATES\<newline>ITEM_REMOVE: NONE'') = Inr None"
    by simp
  have q: "map_sum id inventory_removed
        (parseTextResponse (sampleId ''fx'') ''### UPDATES\<newline>ITEM_REMOVE: Rope'')
        = Inr (Some [''Rope''])"
    by code_simp
  have o: "noneDirective ''  ITEM_ADD: none | misc''
     \<and> noneDirective ''EFFECT_ADD: None | debuff | 3''
     \<and> noneDirective ''EQUIP: none'' \<and> noneDirective ''UNEQUIP:NONE''"
    by code_simp
  from n u p q o show ?thesis by blast
qed

lemma sameText_plain_steps:
  "sameText r (hpStep cl r)" "sameText r (statusStep cl r)" "sameText r (questStep cl r)"
  by (simp_all add: sameText_def hpStep_def statusStep_def questStep_def Let_def)

lemma sameText_stop_steps:
  "sameText r (fst (itemAddStep cl r))" "sameText r (fst (itemRemoveStep cl r))"
  "sameText r (fst (equipStep cl r))" "sameText r (fst (unequipStep cl r))"
  "sameText r (fst (effectAddStep ids cl r))"
  by (simp_all add: sameText_def itemAddStep_def itemRemoveStep_def equipStep_def
      unequipStep_def effectAddStep_def Let_def)

lemma sameText_trans: "sameText a b \<Longrightarrow> sameText b c \<Longrightarrow> sameText a c"
  by (simp add: sameText_def)

lemma sameText_thenStep:
  assumes "sameText r (fst rb)" and "\<And>x. sameText x (fst (f x))"
  shows "sameText r (fst (thenStep rb f))"
proof (cases "snd rb")
  case True
  with assms(1) show ?thesis by (simp add: thenStep_def)
next
  case False
  then have "fst (thenStep rb f) = fst (f (fst rb))" by (simp add: thenStep_def)
  with assms(1) assms(2) [of "fst rb"] show ?thesis by (auto intro: sameText_trans)
qed

lemma updateLine_sameText: "sameText r (updateLine ids r line)"
proof (cases "trim line = []")
  case True
  then show ?thesis by (simp add: updateLine_def sameText_def)
next
  case False
  let ?cl = "trim line"
  have a: "sameText r (questStep ?cl (statusStep ?cl (hpStep ?cl r)))"
    by (blast intro: sameText_trans sameText_plain_steps)
  have b: "sameText r (fst (itemAddStep ?cl (questStep ?cl (statusStep ?cl (hpStep ?cl r)))))"
    by (blast intro: sameText_trans a sameText_stop_steps)
  have "sameText r
          (fst (thenStep (thenStep (thenStep (thenStep
                  (itemAddStep ?cl (questStep ?cl (statusStep ?cl (hpStep ?cl r))))
                  (itemRemoveStep ?cl)) (equipStep ?cl)) (unequipStep ?cl))
                  (effectAddStep ids ?cl)))"
    by (intro sameText_thenStep b sameText_stop_steps)
  with False show ?thesis by (simp add: updateLine_def Let_def)
qed

lemma parseUpdates_sameText: "sameText r (parseUpdates ids ls r)"
proof (induction ls arbitrary: r)
  case Nil
  show ?case by (simp add: parseUpdates_def sameText_def)
next
  case (Cons l ls)
  have "parseUpdates ids (l # ls) r = parseUpdates ids ls (updateLine ids r l)"
    by (simp add: parseUpdates_def)
  with Cons [of "updateLine ids r l"] updateLine_sameText [of r ids l] show ?case
    by (auto intro: sameText_trans)
qed

lemma actionLine_raises_iff:
  "actionLine result line = Inl e \<longleftrightarrow>
     trim (fst (splitOn (CHR '':'') line)) = ''SUCCESS'' \<and> snd (splitOn (CHR '':'') line) = []"
  by (cases e) (auto simp: actionLine_def Let_def nthOpt_def split: option.splits)

lemma actionLines_raises_iff:
  "actionLines result ls = Inl e \<longleftrightarrow>
     (\<exists>line \<in> set ls. trim (fst (splitOn (CHR '':'') line)) = ''SUCCESS''
                        \<and> snd (splitOn (CHR '':'') line) = [])"
proof (induction ls arbitrary: result)
  case Nil
  show ?case by simp
next
  case (Cons l ls)
  show ?case
  proof (cases "actionLine result l")
    case (Inl e')
    have ee: "e' = e" by (cases e, cases e') simp
    from Inl have l: "actionLines result (l # ls) = Inl e" by (simp add: ee)
    from Inl have "trim (fst (splitOn (CHR '':'') l)) = ''SUCCESS'' \<and> snd (splitOn (CHR '':'') l) = []"
      by (simp add: actionLine_raises_iff ee)
    with l show ?thesis by simp
  next
    case (Inr result1)
    then have n: "\<not> (trim (fst (splitOn (CHR '':'') l)) = ''SUCCESS''
                      \<and> snd (splitOn (CHR '':'') l) = [])"
      using actionLine_raises_iff [of result l e] by simp
    from Inr have "actionLines result (l # ls) = actionLines result1 ls" by simp
    then have "actionLines result (l # ls) = Inl e \<longleftrightarrow>
        (\<exists>line \<in> set ls. trim (fst (splitOn (CHR '':'') line)) = ''SUCCESS''
                           \<and> snd (splitOn (CHR '':'') line) = [])"
      using Cons [of result1] by (simp only:)
    with n show ?thesis by auto
  qed
qed

lemma parseBody_raises_iff:
  "parseBody ids text n c ls a = Inl e \<longleftrightarrow>
     truthyStr a \<and> actionLines emptyResult (splitLines (the a)) = Inl e"
proof (cases "truthyStr a")
  case False
  then show ?thesis by (simp add: parseBody_def Let_def)
next
  case True
  then show ?thesis
    by (cases "actionLines emptyResult (splitLines (the a))") (simp_all add: parseBody_def Let_def)
qed

lemma parseTextResponse_raises_iff:
  "parseTextResponse ids text = Inl e \<longleftrightarrow>
     truthyStr (sectionOf text ''ACTION_RESULT'')
     \<and> (\<exists>line \<in> set (splitLines (the (sectionOf text ''ACTION_RESULT''))).
           trim (fst (splitOn (CHR '':'') line)) = ''SUCCESS''
           \<and> snd (splitOn (CHR '':'') line) = [])"
  unfolding parseTextResponse_def parseBody_raises_iff actionLines_raises_iff ..

lemma parseBody_sameText:
  assumes "parseBody ids text n c ls a = Inr r"
  shows "narrative r = strOr n text
         \<and> choices r = (if truthyStr c then Some (parseChoices (the c)) else Some [])
         \<and> (ls = [] \<longrightarrow> hp_change r = Some 0 \<and> game_status r = Some Ongoing)"
proof -
  define response0 where "response0 =
     \<lparr>narrative = strOr n text, choices = Some [], inventory_added = None,
      inventory_removed = None, equipment_update = None, quest_update = None,
      hp_change = Some 0, game_status = Some Ongoing, ai_stats_update = None,
      new_effects = None, ai_npcs_update = None, action_result = None\<rparr>"
  define response1 where "response1 =
     (if truthyStr c then response0\<lparr>choices := Some (parseChoices (the c))\<rparr> else response0)"
  define response2 where "response2 = parseUpdates ids ls response1"
  have r1: "narrative response1 = strOr n text"
    "choices response1 = (if truthyStr c then Some (parseChoices (the c)) else Some [])"
    "hp_change response1 = Some 0" "game_status response1 = Some Ongoing"
    by (simp_all add: response1_def response0_def)
  have r2: "narrative response2 = narrative response1 \<and> choices response2 = choices response1"
    using parseUpdates_sameText [of response1 ids ls] by (simp add: response2_def sameText_def)
  have e: "ls = [] \<longrightarrow> response2 = response1"
    by (simp add: response2_def parseUpdates_def)
  from assms have "r = response2 \<or> (\<exists>ar. r = response2\<lparr>action_result := Some ar\<rparr>)"
    unfolding parseBody_def Let_def response0_def [symmetric] response1_def [symmetric]
      response2_def [symmetric]
    by (auto split: if_splits sum.splits)
  with r1 r2 e show ?thesis by auto
qed

lemma parseTextResponse_defaults:
  assumes "parseTextResponse ids text = Inr r"
  shows "(\<not> truthyStr (sectionOf text ''NARRATIVE'') \<longrightarrow> narrative r = text)
         \<and> (\<not> truthyStr (sectionOf text ''CHOICES'') \<longrightarrow> choices r = Some [])
         \<and> (updateLinesOf text = [] \<longrightarrow> hp_change r = Some 0 \<and> game_status r = Some Ongoing)"
  using parseBody_sameText [OF assms [unfolded parseTextResponse_def]]
  by (simp add: strOr_def)

text \<open>
  C7: the parser raises on some inputs. A line \<^verbatim>\<open>SUCCESS\<close> without a colon in the section
  \<^verbatim>\<open>ACTION_RESULT\<close> has no value, and \<^verbatim>\<open>val.toLowerCase()\<close> raises a \<^verbatim>\<open>TypeError\<close>. By
  \<open>parseTextResponse_raises_iff\<close> these are the only inputs on which it raises, and by
  \<open>parseTextResponse_defaults\<close> every other input gets the defaults of the claim.
\<close>

theorem C7_parseTextResponse_raises:
  "parseTextResponse ids ''### ACTION_RESULT\<newline>SUCCESS'' = Inl TypeError"
proof -
  have "map_sum id narrative (parseTextResponse ids ''### ACTION_RESULT\<newline>SUCCESS'')
        = Inl TypeError"
    by code_simp
  then show ?thesis
    by (cases "parseTextResponse ids ''### ACTION_RESULT\<newline>SUCCESS''") simp_all
qed

end
